theory Spec2Isabelle
  imports Main
begin

section \<open>Strings of Unicode code points\<close>

text \<open>
  A Python \<open>str\<close> is a sequence of Unicode code points, so a character is modelled by
  its code point (Python's \<open>ord\<close>) and a string by a list of them. The constant
  \<open>u\<close> turns an ASCII literal into such a string.
\<close>

type_synonym uchar = nat
type_synonym ustr = "nat list"

definition u :: "string \<Rightarrow> ustr" where
  "u s = map of_char s"

subsection \<open>The Unicode tables behind \<open>str.isalnum\<close> and \<open>str.upper\<close>\<close>

text \<open>
  Both methods are built into Python; the program only calls them. Their tables are
  written out here as CPython 3.11 has them (Unicode 14.0):
  \<^item> \<open>alnum_ranges\<close>: the closed intervals of code points \<open>c\<close> with
    \<open>chr(c).isalnum()\<close>, in increasing order;
  \<^item> \<open>upper_rules\<close>: \<open>(lo, hi, step, target)\<close> says that every code point
    \<open>lo + k * step \<le> hi\<close> has the one-character upper case \<open>target + k * step\<close>;
  \<^item> \<open>upper_special\<close>: the code points whose upper case has several characters.
  A code point in neither upper-case table is its own upper case.
\<close>

definition alnum_ranges :: "(nat \<times> nat) list" where
  "alnum_ranges = [
    (48, 57), (65, 90), (97, 122), (170, 170), (178, 179), (181, 181), (185, 186), (188, 190),
    (192, 214), (216, 246), (248, 705), (710, 721), (736, 740), (748, 748), (750, 750), (880,
    884), (886, 887), (890, 893), (895, 895), (902, 902), (904, 906), (908, 908), (910, 929),
    (931, 1013), (1015, 1153), (1162, 1327), (1329, 1366), (1369, 1369), (1376, 1416), (1488,
    1514), (1519, 1522), (1568, 1610), (1632, 1641), (1646, 1647), (1649, 1747), (1749, 1749),
    (1765, 1766), (1774, 1788), (1791, 1791), (1808, 1808), (1810, 1839), (1869, 1957), (1969,
    1969), (1984, 2026), (2036, 2037), (2042, 2042), (2048, 2069), (2074, 2074), (2084, 2084),
    (2088, 2088), (2112, 2136), (2144, 2154), (2160, 2183), (2185, 2190), (2208, 2249), (2308,
    2361), (2365, 2365), (2384, 2384), (2392, 2401), (2406, 2415), (2417, 2432), (2437, 2444),
    (2447, 2448), (2451, 2472), (2474, 2480), (2482, 2482), (2486, 2489), (2493, 2493), (2510,
    2510), (2524, 2525), (2527, 2529), (2534, 2545), (2548, 2553), (2556, 2556), (2565, 2570),
    (2575, 2576), (2579, 2600), (2602, 2608), (2610, 2611), (2613, 2614), (2616, 2617), (2649,
    2652), (2654, 2654), (2662, 2671), (2674, 2676), (2693, 2701), (2703, 2705), (2707, 2728),
    (2730, 2736), (2738, 2739), (2741, 2745), (2749, 2749), (2768, 2768), (2784, 2785), (2790,
    2799), (2809, 2809), (2821, 2828), (2831, 2832), (2835, 2856), (2858, 2864), (2866, 2867),
    (2869, 2873), (2877, 2877), (2908, 2909), (2911, 2913), (2918, 2927), (2929, 2935), (2947,
    2947), (2949, 2954), (2958, 2960), (2962, 2965), (2969, 2970), (2972, 2972), (2974, 2975),
    (2979, 2980), (2984, 2986), (2990, 3001), (3024, 3024), (3046, 3058), (3077, 3084), (3086,
    3088), (3090, 3112), (3114, 3129), (3133, 3133), (3160, 3162), (3165, 3165), (3168, 3169),
    (3174, 3183), (3192, 3198), (3200, 3200), (3205, 3212), (3214, 3216), (3218, 3240), (3242,
    3251), (3253, 3257), (3261, 3261), (3293, 3294), (3296, 3297), (3302, 3311), (3313, 3314),
    (3332, 3340), (3342, 3344), (3346, 3386), (3389, 3389), (3406, 3406), (3412, 3414), (3416,
    3425), (3430, 3448), (3450, 3455), (3461, 3478), (3482, 3505), (3507, 3515), (3517, 3517),
    (3520, 3526), (3558, 3567), (3585, 3632), (3634, 3635), (3648, 3654), (3664, 3673), (3713,
    3714), (3716, 3716), (3718, 3722), (3724, 3747), (3749, 3749), (3751, 3760), (3762, 3763),
    (3773, 3773), (3776, 3780), (3782, 3782), (3792, 3801), (3804, 3807), (3840, 3840), (3872,
    3891), (3904, 3911), (3913, 3948), (3976, 3980), (4096, 4138), (4159, 4169), (4176, 4181),
    (4186, 4189), (4193, 4193), (4197, 4198), (4206, 4208), (4213, 4225), (4238, 4238), (4240,
    4249), (4256, 4293), (4295, 4295), (4301, 4301), (4304, 4346), (4348, 4680), (4682, 4685),
    (4688, 4694), (4696, 4696), (4698, 4701), (4704, 4744), (4746, 4749), (4752, 4784), (4786,
    4789), (4792, 4798), (4800, 4800), (4802, 4805), (4808, 4822), (4824, 4880), (4882, 4885),
    (4888, 4954), (4969, 4988), (4992, 5007), (5024, 5109), (5112, 5117), (5121, 5740), (5743,
    5759), (5761, 5786), (5792, 5866), (5870, 5880), (5888, 5905), (5919, 5937), (5952, 5969),
    (5984, 5996), (5998, 6000), (6016, 6067), (6103, 6103), (6108, 6108), (6112, 6121), (6128,
    6137), (6160, 6169), (6176, 6264), (6272, 6276), (6279, 6312), (6314, 6314), (6320, 6389),
    (6400, 6430), (6470, 6509), (6512, 6516), (6528, 6571), (6576, 6601), (6608, 6618), (6656,
    6678), (6688, 6740), (6784, 6793), (6800, 6809), (6823, 6823), (6917, 6963), (6981, 6988),
    (6992, 7001), (7043, 7072), (7086, 7141), (7168, 7203), (7232, 7241), (7245, 7293), (7296,
    7304), (7312, 7354), (7357, 7359), (7401, 7404), (7406, 7411), (7413, 7414), (7418, 7418),
    (7424, 7615), (7680, 7957), (7960, 7965), (7968, 8005), (8008, 8013), (8016, 8023), (8025,
    8025), (8027, 8027), (8029, 8029), (8031, 8061), (8064, 8116), (8118, 8124), (8126, 8126),
    (8130, 8132), (8134, 8140), (8144, 8147), (8150, 8155), (8160, 8172), (8178, 8180), (8182,
    8188), (8304, 8305), (8308, 8313), (8319, 8329), (8336, 8348), (8450, 8450), (8455, 8455),
    (8458, 8467), (8469, 8469), (8473, 8477), (8484, 8484), (8486, 8486), (8488, 8488), (8490,
    8493), (8495, 8505), (8508, 8511), (8517, 8521), (8526, 8526), (8528, 8585), (9312, 9371),
    (9450, 9471), (10102, 10131), (11264, 11492), (11499, 11502), (11506, 11507), (11517,
    11517), (11520, 11557), (11559, 11559), (11565, 11565), (11568, 11623), (11631, 11631),
    (11648, 11670), (11680, 11686), (11688, 11694), (11696, 11702), (11704, 11710), (11712,
    11718), (11720, 11726), (11728, 11734), (11736, 11742), (11823, 11823), (12293, 12295),
    (12321, 12329), (12337, 12341), (12344, 12348), (12353, 12438), (12445, 12447), (12449,
    12538), (12540, 12543), (12549, 12591), (12593, 12686), (12690, 12693), (12704, 12735),
    (12784, 12799), (12832, 12841), (12872, 12879), (12881, 12895), (12928, 12937), (12977,
    12991), (13312, 19903), (19968, 42124), (42192, 42237), (42240, 42508), (42512, 42539),
    (42560, 42606), (42623, 42653), (42656, 42735), (42775, 42783), (42786, 42888), (42891,
    42954), (42960, 42961), (42963, 42963), (42965, 42969), (42994, 43009), (43011, 43013),
    (43015, 43018), (43020, 43042), (43056, 43061), (43072, 43123), (43138, 43187), (43216,
    43225), (43250, 43255), (43259, 43259), (43261, 43262), (43264, 43301), (43312, 43334),
    (43360, 43388), (43396, 43442), (43471, 43481), (43488, 43492), (43494, 43518), (43520,
    43560), (43584, 43586), (43588, 43595), (43600, 43609), (43616, 43638), (43642, 43642),
    (43646, 43695), (43697, 43697), (43701, 43702), (43705, 43709), (43712, 43712), (43714,
    43714), (43739, 43741), (43744, 43754), (43762, 43764), (43777, 43782), (43785, 43790),
    (43793, 43798), (43808, 43814), (43816, 43822), (43824, 43866), (43868, 43881), (43888,
    44002), (44016, 44025), (44032, 55203), (55216, 55238), (55243, 55291), (63744, 64109),
    (64112, 64217), (64256, 64262), (64275, 64279), (64285, 64285), (64287, 64296), (64298,
    64310), (64312, 64316), (64318, 64318), (64320, 64321), (64323, 64324), (64326, 64433),
    (64467, 64829), (64848, 64911), (64914, 64967), (65008, 65019), (65136, 65140), (65142,
    65276), (65296, 65305), (65313, 65338), (65345, 65370), (65382, 65470), (65474, 65479),
    (65482, 65487), (65490, 65495), (65498, 65500), (65536, 65547), (65549, 65574), (65576,
    65594), (65596, 65597), (65599, 65613), (65616, 65629), (65664, 65786), (65799, 65843),
    (65856, 65912), (65930, 65931), (66176, 66204), (66208, 66256), (66273, 66299), (66304,
    66339), (66349, 66378), (66384, 66421), (66432, 66461), (66464, 66499), (66504, 66511),
    (66513, 66517), (66560, 66717), (66720, 66729), (66736, 66771), (66776, 66811), (66816,
    66855), (66864, 66915), (66928, 66938), (66940, 66954), (66956, 66962), (66964, 66965),
    (66967, 66977), (66979, 66993), (66995, 67001), (67003, 67004), (67072, 67382), (67392,
    67413), (67424, 67431), (67456, 67461), (67463, 67504), (67506, 67514), (67584, 67589),
    (67592, 67592), (67594, 67637), (67639, 67640), (67644, 67644), (67647, 67669), (67672,
    67702), (67705, 67742), (67751, 67759), (67808, 67826), (67828, 67829), (67835, 67867),
    (67872, 67897), (67968, 68023), (68028, 68047), (68050, 68096), (68112, 68115), (68117,
    68119), (68121, 68149), (68160, 68168), (68192, 68222), (68224, 68255), (68288, 68295),
    (68297, 68324), (68331, 68335), (68352, 68405), (68416, 68437), (68440, 68466), (68472,
    68497), (68521, 68527), (68608, 68680), (68736, 68786), (68800, 68850), (68858, 68899),
    (68912, 68921), (69216, 69246), (69248, 69289), (69296, 69297), (69376, 69415), (69424,
    69445), (69457, 69460), (69488, 69505), (69552, 69579), (69600, 69622), (69635, 69687),
    (69714, 69743), (69745, 69746), (69749, 69749), (69763, 69807), (69840, 69864), (69872,
    69881), (69891, 69926), (69942, 69951), (69956, 69956), (69959, 69959), (69968, 70002),
    (70006, 70006), (70019, 70066), (70081, 70084), (70096, 70106), (70108, 70108), (70113,
    70132), (70144, 70161), (70163, 70187), (70272, 70278), (70280, 70280), (70282, 70285),
    (70287, 70301), (70303, 70312), (70320, 70366), (70384, 70393), (70405, 70412), (70415,
    70416), (70419, 70440), (70442, 70448), (70450, 70451), (70453, 70457), (70461, 70461),
    (70480, 70480), (70493, 70497), (70656, 70708), (70727, 70730), (70736, 70745), (70751,
    70753), (70784, 70831), (70852, 70853), (70855, 70855), (70864, 70873), (71040, 71086),
    (71128, 71131), (71168, 71215), (71236, 71236), (71248, 71257), (71296, 71338), (71352,
    71352), (71360, 71369), (71424, 71450), (71472, 71483), (71488, 71494), (71680, 71723),
    (71840, 71922), (71935, 71942), (71945, 71945), (71948, 71955), (71957, 71958), (71960,
    71983), (71999, 71999), (72001, 72001), (72016, 72025), (72096, 72103), (72106, 72144),
    (72161, 72161), (72163, 72163), (72192, 72192), (72203, 72242), (72250, 72250), (72272,
    72272), (72284, 72329), (72349, 72349), (72368, 72440), (72704, 72712), (72714, 72750),
    (72768, 72768), (72784, 72812), (72818, 72847), (72960, 72966), (72968, 72969), (72971,
    73008), (73030, 73030), (73040, 73049), (73056, 73061), (73063, 73064), (73066, 73097),
    (73112, 73112), (73120, 73129), (73440, 73458), (73648, 73648), (73664, 73684), (73728,
    74649), (74752, 74862), (74880, 75075), (77712, 77808), (77824, 78894), (82944, 83526),
    (92160, 92728), (92736, 92766), (92768, 92777), (92784, 92862), (92864, 92873), (92880,
    92909), (92928, 92975), (92992, 92995), (93008, 93017), (93019, 93025), (93027, 93047),
    (93053, 93071), (93760, 93846), (93952, 94026), (94032, 94032), (94099, 94111), (94176,
    94177), (94179, 94179), (94208, 100343), (100352, 101589), (101632, 101640), (110576,
    110579), (110581, 110587), (110589, 110590), (110592, 110882), (110928, 110930), (110948,
    110951), (110960, 111355), (113664, 113770), (113776, 113788), (113792, 113800), (113808,
    113817), (119520, 119539), (119648, 119672), (119808, 119892), (119894, 119964), (119966,
    119967), (119970, 119970), (119973, 119974), (119977, 119980), (119982, 119993), (119995,
    119995), (119997, 120003), (120005, 120069), (120071, 120074), (120077, 120084), (120086,
    120092), (120094, 120121), (120123, 120126), (120128, 120132), (120134, 120134), (120138,
    120144), (120146, 120485), (120488, 120512), (120514, 120538), (120540, 120570), (120572,
    120596), (120598, 120628), (120630, 120654), (120656, 120686), (120688, 120712), (120714,
    120744), (120746, 120770), (120772, 120779), (120782, 120831), (122624, 122654), (123136,
    123180), (123191, 123197), (123200, 123209), (123214, 123214), (123536, 123565), (123584,
    123627), (123632, 123641), (124896, 124902), (124904, 124907), (124909, 124910), (124912,
    124926), (124928, 125124), (125127, 125135), (125184, 125251), (125259, 125259), (125264,
    125273), (126065, 126123), (126125, 126127), (126129, 126132), (126209, 126253), (126255,
    126269), (126464, 126467), (126469, 126495), (126497, 126498), (126500, 126500), (126503,
    126503), (126505, 126514), (126516, 126519), (126521, 126521), (126523, 126523), (126530,
    126530), (126535, 126535), (126537, 126537), (126539, 126539), (126541, 126543), (126545,
    126546), (126548, 126548), (126551, 126551), (126553, 126553), (126555, 126555), (126557,
    126557), (126559, 126559), (126561, 126562), (126564, 126564), (126567, 126570), (126572,
    126578), (126580, 126583), (126585, 126588), (126590, 126590), (126592, 126601), (126603,
    126619), (126625, 126627), (126629, 126633), (126635, 126651), (127232, 127244), (130032,
    130041), (131072, 173791), (173824, 177976), (177984, 178205), (178208, 183969), (183984,
    191456), (194560, 195101), (196608, 201546)]"

definition upper_rules :: "(nat \<times> nat \<times> nat \<times> nat) list" where
  "upper_rules = [
    (97, 122, 1, 65), (181, 181, 1, 924), (224, 246, 1, 192), (248, 254, 1, 216), (255, 255,
    1, 376), (257, 303, 2, 256), (305, 305, 1, 73), (307, 311, 2, 306), (314, 328, 2, 313),
    (331, 375, 2, 330), (378, 382, 2, 377), (383, 383, 1, 83), (384, 384, 1, 579), (387, 389,
    2, 386), (392, 392, 1, 391), (396, 396, 1, 395), (402, 402, 1, 401), (405, 405, 1, 502),
    (409, 409, 1, 408), (410, 410, 1, 573), (414, 414, 1, 544), (417, 421, 2, 416), (424, 424,
    1, 423), (429, 429, 1, 428), (432, 432, 1, 431), (436, 438, 2, 435), (441, 441, 1, 440),
    (445, 445, 1, 444), (447, 447, 1, 503), (453, 453, 1, 452), (454, 454, 1, 452), (456, 456,
    1, 455), (457, 457, 1, 455), (459, 459, 1, 458), (460, 460, 1, 458), (462, 476, 2, 461),
    (477, 477, 1, 398), (479, 495, 2, 478), (498, 498, 1, 497), (499, 499, 1, 497), (501, 501,
    1, 500), (505, 543, 2, 504), (547, 563, 2, 546), (572, 572, 1, 571), (575, 576, 1, 11390),
    (578, 578, 1, 577), (583, 591, 2, 582), (592, 592, 1, 11375), (593, 593, 1, 11373), (594,
    594, 1, 11376), (595, 595, 1, 385), (596, 596, 1, 390), (598, 599, 1, 393), (601, 601, 1,
    399), (603, 603, 1, 400), (604, 604, 1, 42923), (608, 608, 1, 403), (609, 609, 1, 42924),
    (611, 611, 1, 404), (613, 613, 1, 42893), (614, 614, 1, 42922), (616, 616, 1, 407), (617,
    617, 1, 406), (618, 618, 1, 42926), (619, 619, 1, 11362), (620, 620, 1, 42925), (623, 623,
    1, 412), (625, 625, 1, 11374), (626, 626, 1, 413), (629, 629, 1, 415), (637, 637, 1,
    11364), (640, 640, 1, 422), (642, 642, 1, 42949), (643, 643, 1, 425), (647, 647, 1,
    42929), (648, 648, 1, 430), (649, 649, 1, 580), (650, 651, 1, 433), (652, 652, 1, 581),
    (658, 658, 1, 439), (669, 669, 1, 42930), (670, 670, 1, 42928), (837, 837, 1, 921), (881,
    883, 2, 880), (887, 887, 1, 886), (891, 893, 1, 1021), (940, 940, 1, 902), (941, 943, 1,
    904), (945, 961, 1, 913), (962, 962, 1, 931), (963, 971, 1, 931), (972, 972, 1, 908),
    (973, 974, 1, 910), (976, 976, 1, 914), (977, 977, 1, 920), (981, 981, 1, 934), (982, 982,
    1, 928), (983, 983, 1, 975), (985, 1007, 2, 984), (1008, 1008, 1, 922), (1009, 1009, 1,
    929), (1010, 1010, 1, 1017), (1011, 1011, 1, 895), (1013, 1013, 1, 917), (1016, 1016, 1,
    1015), (1019, 1019, 1, 1018), (1072, 1103, 1, 1040), (1104, 1119, 1, 1024), (1121, 1153,
    2, 1120), (1163, 1215, 2, 1162), (1218, 1230, 2, 1217), (1231, 1231, 1, 1216), (1233,
    1327, 2, 1232), (1377, 1414, 1, 1329), (4304, 4346, 1, 7312), (4349, 4351, 1, 7357),
    (5112, 5117, 1, 5104), (7296, 7296, 1, 1042), (7297, 7297, 1, 1044), (7298, 7298, 1,
    1054), (7299, 7300, 1, 1057), (7301, 7301, 1, 1058), (7302, 7302, 1, 1066), (7303, 7303,
    1, 1122), (7304, 7304, 1, 42570), (7545, 7545, 1, 42877), (7549, 7549, 1, 11363), (7566,
    7566, 1, 42950), (7681, 7829, 2, 7680), (7835, 7835, 1, 7776), (7841, 7935, 2, 7840),
    (7936, 7943, 1, 7944), (7952, 7957, 1, 7960), (7968, 7975, 1, 7976), (7984, 7991, 1,
    7992), (8000, 8005, 1, 8008), (8017, 8023, 2, 8025), (8032, 8039, 1, 8040), (8048, 8049,
    1, 8122), (8050, 8053, 1, 8136), (8054, 8055, 1, 8154), (8056, 8057, 1, 8184), (8058,
    8059, 1, 8170), (8060, 8061, 1, 8186), (8112, 8113, 1, 8120), (8126, 8126, 1, 921), (8144,
    8145, 1, 8152), (8160, 8161, 1, 8168), (8165, 8165, 1, 8172), (8526, 8526, 1, 8498),
    (8560, 8575, 1, 8544), (8580, 8580, 1, 8579), (9424, 9449, 1, 9398), (11312, 11359, 1,
    11264), (11361, 11361, 1, 11360), (11365, 11365, 1, 570), (11366, 11366, 1, 574), (11368,
    11372, 2, 11367), (11379, 11379, 1, 11378), (11382, 11382, 1, 11381), (11393, 11491, 2,
    11392), (11500, 11502, 2, 11499), (11507, 11507, 1, 11506), (11520, 11557, 1, 4256),
    (11559, 11559, 1, 4295), (11565, 11565, 1, 4301), (42561, 42605, 2, 42560), (42625, 42651,
    2, 42624), (42787, 42799, 2, 42786), (42803, 42863, 2, 42802), (42874, 42876, 2, 42873),
    (42879, 42887, 2, 42878), (42892, 42892, 1, 42891), (42897, 42899, 2, 42896), (42900,
    42900, 1, 42948), (42903, 42921, 2, 42902), (42933, 42947, 2, 42932), (42952, 42954, 2,
    42951), (42961, 42961, 1, 42960), (42967, 42969, 2, 42966), (42998, 42998, 1, 42997),
    (43859, 43859, 1, 42931), (43888, 43967, 1, 5024), (65345, 65370, 1, 65313), (66600,
    66639, 1, 66560), (66776, 66811, 1, 66736), (66967, 66977, 1, 66928), (66979, 66993, 1,
    66940), (66995, 67001, 1, 66956), (67003, 67004, 1, 66964), (68800, 68850, 1, 68736),
    (71872, 71903, 1, 71840), (93792, 93823, 1, 93760), (125218, 125251, 1, 125184)]"

definition upper_special :: "(nat \<times> nat list) list" where
  "upper_special = [
    (223, [83, 83]), (329, [700, 78]), (496, [74, 780]), (912, [921, 776, 769]), (944, [933,
    776, 769]), (1415, [1333, 1362]), (7830, [72, 817]), (7831, [84, 776]), (7832, [87, 778]),
    (7833, [89, 778]), (7834, [65, 702]), (8016, [933, 787]), (8018, [933, 787, 768]), (8020,
    [933, 787, 769]), (8022, [933, 787, 834]), (8064, [7944, 921]), (8065, [7945, 921]),
    (8066, [7946, 921]), (8067, [7947, 921]), (8068, [7948, 921]), (8069, [7949, 921]), (8070,
    [7950, 921]), (8071, [7951, 921]), (8072, [7944, 921]), (8073, [7945, 921]), (8074, [7946,
    921]), (8075, [7947, 921]), (8076, [7948, 921]), (8077, [7949, 921]), (8078, [7950, 921]),
    (8079, [7951, 921]), (8080, [7976, 921]), (8081, [7977, 921]), (8082, [7978, 921]), (8083,
    [7979, 921]), (8084, [7980, 921]), (8085, [7981, 921]), (8086, [7982, 921]), (8087, [7983,
    921]), (8088, [7976, 921]), (8089, [7977, 921]), (8090, [7978, 921]), (8091, [7979, 921]),
    (8092, [7980, 921]), (8093, [7981, 921]), (8094, [7982, 921]), (8095, [7983, 921]), (8096,
    [8040, 921]), (8097, [8041, 921]), (8098, [8042, 921]), (8099, [8043, 921]), (8100, [8044,
    921]), (8101, [8045, 921]), (8102, [8046, 921]), (8103, [8047, 921]), (8104, [8040, 921]),
    (8105, [8041, 921]), (8106, [8042, 921]), (8107, [8043, 921]), (8108, [8044, 921]), (8109,
    [8045, 921]), (8110, [8046, 921]), (8111, [8047, 921]), (8114, [8122, 921]), (8115, [913,
    921]), (8116, [902, 921]), (8118, [913, 834]), (8119, [913, 834, 921]), (8124, [913,
    921]), (8130, [8138, 921]), (8131, [919, 921]), (8132, [905, 921]), (8134, [919, 834]),
    (8135, [919, 834, 921]), (8140, [919, 921]), (8146, [921, 776, 768]), (8147, [921, 776,
    769]), (8150, [921, 834]), (8151, [921, 776, 834]), (8162, [933, 776, 768]), (8163, [933,
    776, 769]), (8164, [929, 787]), (8166, [933, 834]), (8167, [933, 776, 834]), (8178, [8186,
    921]), (8179, [937, 921]), (8180, [911, 921]), (8182, [937, 834]), (8183, [937, 834,
    921]), (8188, [937, 921]), (64256, [70, 70]), (64257, [70, 73]), (64258, [70, 76]),
    (64259, [70, 70, 73]), (64260, [70, 70, 76]), (64261, [83, 84]), (64262, [83, 84]),
    (64275, [1348, 1350]), (64276, [1348, 1333]), (64277, [1348, 1339]), (64278, [1358,
    1350]), (64279, [1348, 1341])]"

fun in_ranges :: "nat \<Rightarrow> (nat \<times> nat) list \<Rightarrow> bool" where
  "in_ranges c [] = False"
| "in_ranges c ((lo, hi) # rs) =
     (if c < lo then False else if c \<le> hi then True else in_ranges c rs)"

definition isalnum :: "uchar \<Rightarrow> bool" where
  "isalnum c = in_ranges c alnum_ranges"

fun upper_rule :: "nat \<Rightarrow> (nat \<times> nat \<times> nat \<times> nat) list \<Rightarrow> nat option" where
  "upper_rule c [] = None"
| "upper_rule c ((lo, hi, step, target) # rs) =
     (if c < lo then None
      else if c \<le> hi then (if (c - lo) mod step = 0 then Some (target + (c - lo)) else None)
      else upper_rule c rs)"

definition upper_char :: "uchar \<Rightarrow> ustr" where
  "upper_char c =
     (case upper_rule c upper_rules of
        Some C \<Rightarrow> [C]
      | None \<Rightarrow> (case map_of upper_special c of Some s \<Rightarrow> s | None \<Rightarrow> [c]))"

text \<open>\<open>str.upper\<close> maps each character on its own (no rule of it looks at the context).\<close>

definition upper :: "ustr \<Rightarrow> ustr" where
  "upper s = concat (map upper_char s)"

text \<open>
  \<open>str.lower\<close> is called in \<open>get_target_folder\<close> only, on a key of
  \<open>FORMATS_DICT\<close>, on the name of a destination folder (such a key again) or on the
  empty string. Its ASCII part is all these calls can reach.
\<close>

definition lower_char :: "uchar \<Rightarrow> uchar" where
  "lower_char c = (if 65 \<le> c \<and> c \<le> 90 then c + 32 else c)"

definition lower :: "ustr \<Rightarrow> ustr" where
  "lower s = map lower_char s"

text \<open>\<open>str(idx)\<close> for a non-negative integer: its decimal digits.\<close>

fun str :: "nat \<Rightarrow> ustr" where
  "str n = (if n < 10 then [48 + n] else str (n div 10) @ [48 + n mod 10])"

declare str.simps [simp del]

text \<open>\<open>s.removesuffix(t)\<close> and \<open>s.removeprefix(t)\<close>.\<close>

definition endswith :: "ustr \<Rightarrow> ustr \<Rightarrow> bool" where
  "endswith s t = (length t \<le> length s \<and> drop (length s - length t) s = t)"

definition removesuffix :: "ustr \<Rightarrow> ustr \<Rightarrow> ustr" where
  "removesuffix s t = (if t \<noteq> [] \<and> endswith s t then take (length s - length t) s else s)"

definition removeprefix :: "ustr \<Rightarrow> ustr \<Rightarrow> ustr" where
  "removeprefix s t = (if t \<noteq> [] \<and> take (length t) s = t then drop (length t) s else s)"

section \<open>Normalize\<close>

text \<open>
  \<open>CYRILLIC_SYMBOLS\<close> is the string of the 33 Russian and 4 Ukrainian small letters,
  written by code point (U+0430 .. U+044F with U+0451 after U+0435, then U+0454, U+0456,
  U+0457, U+0491); \<open>TRANSLATION\<close> is the tuple of their transliterations.
\<close>

definition CYRILLIC_SYMBOLS :: ustr where
  "CYRILLIC_SYMBOLS =
     [1072, 1073, 1074, 1075, 1076, 1077, 1105, 1078, 1079, 1080, 1081, 1082, 1083, 1084,
      1085, 1086, 1087, 1088, 1089, 1090, 1091, 1092, 1093, 1094, 1095, 1096, 1097, 1098,
      1099, 1100, 1101, 1102, 1103, 1108, 1110, 1111, 1169]"

definition TRANSLATION :: "ustr list" where
  "TRANSLATION = map u
     [''a'', ''b'', ''v'', ''g'', ''d'', ''e'', ''e'', ''j'', ''z'', ''i'', ''j'', ''k'',
      ''l'', ''m'', ''n'', ''o'', ''p'', ''r'', ''s'', ''t'', ''u'', ''f'', ''h'', ''ts'',
      ''ch'', ''sh'', ''sch'', '''', ''y'', '''', ''e'', ''yu'', ''ya'', ''je'', ''i'',
      ''ji'', ''g'']"

text \<open>
  \<open>gen_trans_dict\<close>: the dictionary is an association list in which an entry added
  later stands in front, so that \<open>map_of\<close> reads the last assignment to a key.
  \<open>ord\<close> of a string that is not one character long raises \<open>TypeError\<close>, here
  \<open>None\<close>.
\<close>

fun gen_trans_dict_loop ::
  "(uchar \<times> ustr) list \<Rightarrow> (uchar \<times> ustr) list \<Rightarrow> (uchar \<times> ustr) list option" where
  "gen_trans_dict_loop [] trans_dict = Some trans_dict"
| "gen_trans_dict_loop ((c, l) # rest) trans_dict =
     (case upper_char c of
        [C] \<Rightarrow> gen_trans_dict_loop rest ((C, upper l) # (c, l) # trans_dict)
      | _ \<Rightarrow> None)"

definition gen_trans_dict :: "(uchar \<times> ustr) list option" where
  "gen_trans_dict = gen_trans_dict_loop (zip CYRILLIC_SYMBOLS TRANSLATION) []"

definition TRANS_DICT :: "(uchar \<times> ustr) list" where
  "TRANS_DICT = (case gen_trans_dict of Some d \<Rightarrow> d | None \<Rightarrow> [])"

definition normalize_char :: "uchar \<Rightarrow> ustr" where
  "normalize_char char =
     (if isalnum char then (case map_of TRANS_DICT char of Some l \<Rightarrow> l | None \<Rightarrow> [char])
      else u ''_'')"

definition normalize :: "ustr \<Rightarrow> ustr" where
  "normalize name = foldl (\<lambda>normalized_name char. normalized_name @ normalize_char char) [] name"

text \<open>The characters the specification calls \<open>[A-Za-z0-9_]\<close>.\<close>

definition ascii_word :: "uchar \<Rightarrow> bool" where
  "ascii_word c =
     ((48 \<le> c \<and> c \<le> 57) \<or> (65 \<le> c \<and> c \<le> 90) \<or> (97 \<le> c \<and> c \<le> 122) \<or> c = 95)"

section \<open>Paths\<close>

text \<open>
  A \<open>pathlib.Path\<close> is the list of its components below the anchor; \<open>[]\<close> is the
  anchor itself, whose \<open>name\<close> is empty and which is its own parent. \<open>suffix\<close> and
  \<open>stem\<close> are those of Python up to 3.13: the last dot of the name starts the suffix
  unless it is the first or the last character of the name.
\<close>

type_synonym path = "ustr list"

datatype error =
  ValueError | TypeError | FileNotFoundError | FileExistsError | NotADirectoryError
  | IsADirectoryError | OSError | ReadError

definition name :: "path \<Rightarrow> ustr" where
  "name p = (if p = [] then [] else last p)"

definition parent :: "path \<Rightarrow> path" where
  "parent p = butlast p"

fun rfind :: "uchar \<Rightarrow> ustr \<Rightarrow> nat option" where
  "rfind c [] = None"
| "rfind c (x # xs) =
     (case rfind c xs of Some i \<Rightarrow> Some (Suc i) | None \<Rightarrow> if x = c then Some 0 else None)"

definition name_suffix :: "ustr \<Rightarrow> ustr" where
  "name_suffix n =
     (case rfind 46 n of
        Some i \<Rightarrow> if 0 < i \<and> i < length n - 1 then drop i n else []
      | None \<Rightarrow> [])"

definition name_stem :: "ustr \<Rightarrow> ustr" where
  "name_stem n =
     (case rfind 46 n of
        Some i \<Rightarrow> if 0 < i \<and> i < length n - 1 then take i n else n
      | None \<Rightarrow> n)"

definition suffix :: "path \<Rightarrow> ustr" where
  "suffix p = name_suffix (name p)"

definition stem :: "path \<Rightarrow> ustr" where
  "stem p = name_stem (name p)"

text \<open>\<open>joinpath\<close> with an empty segment is the path itself.\<close>

definition joinpath :: "path \<Rightarrow> ustr \<Rightarrow> path" where
  "joinpath p n = (if n = [] then p else p @ [n])"

text \<open>\<open>with_name\<close> raises \<open>ValueError\<close> on a path without a name and on an empty name.\<close>

definition with_name :: "path \<Rightarrow> ustr \<Rightarrow> error + path" where
  "with_name p n = (if p = [] \<or> n = [] then Inl ValueError else Inr (butlast p @ [n]))"

section \<open>The file system\<close>

text \<open>
  The file system is a finite table from paths to nodes; a file carries its content, an
  opaque value. \<open>exists\<close>, \<open>is_dir\<close> and \<open>is_file\<close> read the table: an entry
  is there, it is a directory, it is a file. The calls the program makes
  (\<open>Path.exists\<close>, \<open>iterdir\<close>, \<open>mkdir\<close>, \<open>rmdir\<close>, \<open>unlink\<close>,
  \<open>rename\<close>) are written out below as Python 3.11 and the operating system behave;
  \<open>Path.exists\<close> is \<open>path_exists\<close>. The program calls \<open>is_dir\<close> and \<open>is_file\<close>
  only on paths that \<open>iterdir\<close> has just listed or \<open>Path.exists\<close> has just found.
  \<open>rename\<close> depends on the platform: on Windows it fails with \<open>FileExistsError\<close>
  whenever the target exists; on POSIX it silently replaces an existing file (and an
  existing empty directory by a directory).
\<close>

datatype node = File nat | Dir

type_synonym filesystem = "(path \<times> node) list"

datatype platform = Posix | Windows

definition node_at :: "filesystem \<Rightarrow> path \<Rightarrow> node option" where
  "node_at fs p = (if p = [] then Some Dir else map_of fs p)"

definition exists :: "filesystem \<Rightarrow> path \<Rightarrow> bool" where
  "exists fs p = (node_at fs p \<noteq> None)"

definition is_dir :: "filesystem \<Rightarrow> path \<Rightarrow> bool" where
  "is_dir fs p = (node_at fs p = Some Dir)"

definition is_file :: "filesystem \<Rightarrow> path \<Rightarrow> bool" where
  "is_file fs p = (case node_at fs p of Some (File c) \<Rightarrow> True | _ \<Rightarrow> False)"

text \<open>
  A name of more than \<open>NAME_MAX\<close> bytes (255 on Linux file systems, counted in the
  UTF-8 encoding) makes every system call on the path fail with \<open>ENAMETOOLONG\<close>, a
  plain \<open>OSError\<close>. \<open>Path.exists()\<close> of Python 3.11 returns \<open>False\<close> for a
  missing entry and re-raises this error.
\<close>

definition utf8_len :: "uchar \<Rightarrow> nat" where
  "utf8_len c = (if c < 128 then 1 else if c < 2048 then 2 else if c < 65536 then 3 else 4)"

definition name_bytes :: "ustr \<Rightarrow> nat" where
  "name_bytes n = sum_list (map utf8_len n)"

definition NAME_MAX :: nat where
  "NAME_MAX = 255"

definition too_long :: "path \<Rightarrow> bool" where
  "too_long p = list_ex (\<lambda>n. NAME_MAX < name_bytes n) p"

definition path_exists :: "filesystem \<Rightarrow> path \<Rightarrow> error + bool" where
  "path_exists fs p = (if too_long p then Inl OSError else Inr (exists fs p))"

definition entries :: "filesystem \<Rightarrow> path \<Rightarrow> path list" where
  "entries fs d = remdups (filter (\<lambda>p. p \<noteq> [] \<and> butlast p = d) (map fst fs))"

definition iterdir :: "filesystem \<Rightarrow> path \<Rightarrow> error + path list" where
  "iterdir fs d =
     (if is_dir fs d then Inr (entries fs d)
      else if exists fs d then Inl NotADirectoryError else Inl FileNotFoundError)"

definition remove_entry :: "filesystem \<Rightarrow> path \<Rightarrow> filesystem" where
  "remove_entry fs p = filter (\<lambda>(k, v). k \<noteq> p) fs"

definition mkdir_exist_ok :: "filesystem \<Rightarrow> path \<Rightarrow> error + filesystem" where
  "mkdir_exist_ok fs p =
     (case node_at fs p of
        Some Dir \<Rightarrow> Inr fs
      | Some (File c) \<Rightarrow> Inl FileExistsError
      | None \<Rightarrow>
          if is_dir fs (parent p) then Inr ((p, Dir) # fs)
          else if exists fs (parent p) then Inl NotADirectoryError else Inl FileNotFoundError)"

definition rmdir :: "filesystem \<Rightarrow> path \<Rightarrow> error + filesystem" where
  "rmdir fs p =
     (case node_at fs p of
        None \<Rightarrow> Inl FileNotFoundError
      | Some (File c) \<Rightarrow> Inl NotADirectoryError
      | Some Dir \<Rightarrow> if p = [] \<or> entries fs p \<noteq> [] then Inl OSError else Inr (remove_entry fs p))"

definition unlink :: "filesystem \<Rightarrow> path \<Rightarrow> error + filesystem" where
  "unlink fs p =
     (case node_at fs p of
        None \<Rightarrow> Inl FileNotFoundError
      | Some Dir \<Rightarrow> Inl IsADirectoryError
      | Some (File c) \<Rightarrow> Inr (remove_entry fs p))"

definition below :: "path \<Rightarrow> path \<Rightarrow> bool" where
  "below d p = (take (length d) p = d)"

definition relocate :: "path \<Rightarrow> path \<Rightarrow> path \<Rightarrow> path" where
  "relocate src dst p = (if below src p then dst @ drop (length src) p else p)"

definition move_tree :: "filesystem \<Rightarrow> path \<Rightarrow> path \<Rightarrow> filesystem" where
  "move_tree fs src dst = map (\<lambda>(k, v). (relocate src dst k, v)) (remove_entry fs dst)"

text \<open>
  \<open>rename\<close>, in the order in which Linux finds the errors: the two parent directories
  are walked, then the source is looked up, then the target; a directory cannot move
  into itself (\<open>EINVAL\<close>), and a target that is an ancestor of the source fails with
  \<open>ENOTEMPTY\<close>; both are a plain \<open>OSError\<close>.
\<close>

definition walk_parent :: "filesystem \<Rightarrow> path \<Rightarrow> error option" where
  "walk_parent fs p =
     (if too_long (parent p) then Some OSError
      else if \<not> exists fs (parent p) then Some FileNotFoundError
      else if \<not> is_dir fs (parent p) then Some NotADirectoryError
      else None)"

definition rename :: "platform \<Rightarrow> filesystem \<Rightarrow> path \<Rightarrow> path \<Rightarrow> error + filesystem" where
  "rename pl fs src dst =
     (if src = [] \<or> dst = [] then Inl OSError
      else
        (case walk_parent fs src of
           Some e \<Rightarrow> Inl e
         | None \<Rightarrow>
             (case walk_parent fs dst of
                Some e \<Rightarrow> Inl e
              | None \<Rightarrow>
                  if too_long src then Inl OSError
                  else
                    (case node_at fs src of
                       None \<Rightarrow> Inl FileNotFoundError
                     | Some n \<Rightarrow>
                         if too_long dst then Inl OSError
                         else if src = dst then Inr fs
                         else if below src dst then Inl OSError
                         else
                           (case node_at fs dst of
                              None \<Rightarrow> Inr (move_tree fs src dst)
                            | Some m \<Rightarrow>
                                (case pl of
                                   Windows \<Rightarrow> Inl FileExistsError
                                 | Posix \<Rightarrow>
                                     if below dst src then Inl OSError
                                     else
                                       (case (n, m) of
                                          (File c, File c') \<Rightarrow> Inr (move_tree fs src dst)
                                        | (File c, Dir) \<Rightarrow> Inl IsADirectoryError
                                        | (Dir, File c') \<Rightarrow> Inl NotADirectoryError
                                        | (Dir, Dir) \<Rightarrow>
                                            if entries fs dst = []
                                            then Inr (move_tree fs src dst)
                                            else Inl OSError)))))))"

section \<open>CleanFolder\<close>

definition FORMATS_DICT :: "(ustr \<times> ustr list) list" where
  "FORMATS_DICT =
     [(u ''images'', map u [''JPEG'', ''PNG'', ''JPG'', ''SVG'']),
      (u ''video'', map u [''AVI'', ''MP4'', ''MOV'', ''MKV'']),
      (u ''documents'', map u [''DOC'', ''DOCX'', ''TXT'', ''PDF'', ''XLSX'', ''PPTX'']),
      (u ''audio'', map u [''MP3'', ''OGG'', ''WAV'', ''M4A'', ''AMR'']),
      (u ''archives'', map u [''ZIP'', ''GZ'', ''TAR''])]"

text \<open>
  The tasks handed to the executor, and the object's state. \<open>thread_pool\<close> holds, in
  the order of submission, the futures whose task has not run yet; the file system is
  part of the state because every method reads or writes it. The root path and the
  platform never change and are parameters. \<open>target_pathes\<close> is a Python set; it is
  kept as a list in the order of \<open>FORMATS_DICT\<close>.
\<close>

datatype task = ScanDir path | MoveFile path path | HandleArchive path

record cleaner =
  disk :: filesystem
  known_formats :: "ustr set"
  unknown_formats :: "ustr set"
  thread_pool :: "task list"
  folders :: "path list"

definition gen_formats_path_set :: "path \<Rightarrow> path list" where
  "gen_formats_path_set root = map (\<lambda>(file_type, formats). joinpath root file_type) FORMATS_DICT"

definition target_pathes :: "path \<Rightarrow> path list" where
  "target_pathes root = gen_formats_path_set root"

fun find_file_type :: "(ustr \<times> ustr list) list \<Rightarrow> ustr \<Rightarrow> ustr" where
  "find_file_type [] extension = []"
| "find_file_type ((file_type, formats) # rest) extension =
     (if extension \<in> set formats then file_type else find_file_type rest extension)"

fun find_target_path :: "path list \<Rightarrow> ustr \<Rightarrow> path option" where
  "find_target_path [] new_folder = None"
| "find_target_path (p # ps) new_folder =
     (if lower (name p) = lower new_folder then Some p else find_target_path ps new_folder)"

definition get_target_folder :: "path \<Rightarrow> ustr \<Rightarrow> path option" where
  "get_target_folder root extension =
     find_target_path (target_pathes root) (find_file_type FORMATS_DICT (upper extension))"

text \<open>
  \<open>gen_unique_name\<close>: the loop reads the suffix of the current \<open>new_path\<close>, as the
  source does, not the suffix of the path it started from.
\<close>

function gen_unique_name_loop :: "filesystem \<Rightarrow> ustr \<Rightarrow> nat \<Rightarrow> path \<Rightarrow> error + path" where
  "gen_unique_name_loop fs start_name idx new_path =
     (case path_exists fs new_path of
        Inl e \<Rightarrow> Inl e
      | Inr True \<Rightarrow>
          (case with_name new_path (start_name @ str (idx + 1) @ suffix new_path) of
             Inl e \<Rightarrow> Inl e
           | Inr p \<Rightarrow> gen_unique_name_loop fs start_name (idx + 1) p)
      | Inr False \<Rightarrow> Inr new_path)"
  by pat_completeness auto

definition gen_unique_name :: "filesystem \<Rightarrow> path \<Rightarrow> error + path" where
  "gen_unique_name fs p = gen_unique_name_loop fs (removesuffix (name p) (suffix p)) 0 p"

text \<open>
  \<open>move_file\<close>: the bare \<open>except:\<close> catches whatever \<open>rename\<close> raises. An exception
  raised inside the handler (by \<open>gen_unique_name\<close>) leaves the loop; a loop that never
  ends has the value \<open>None\<close>.
\<close>

partial_function (option) move_file ::
  "platform \<Rightarrow> filesystem \<Rightarrow> path \<Rightarrow> path \<Rightarrow> (error + filesystem) option" where
  "move_file pl fs old_path new_path =
     (case rename pl fs old_path new_path of
        Inr fs' \<Rightarrow> Some (Inr fs')
      | Inl e \<Rightarrow>
          (case gen_unique_name fs new_path of
             Inl e' \<Rightarrow> Some (Inl e')
           | Inr p \<Rightarrow> move_file pl fs old_path p))"

declare move_file.simps [code]

definition execute_in_thread :: "cleaner \<Rightarrow> task \<Rightarrow> cleaner" where
  "execute_in_thread st t = st\<lparr>thread_pool := thread_pool st @ [t]\<rparr>"

definition new_name_of :: "path \<Rightarrow> ustr" where
  "new_name_of file_path = normalize (stem file_path) @ suffix file_path"

definition extension_of :: "path \<Rightarrow> ustr" where
  "extension_of file_path = removeprefix (suffix file_path) (u ''.'')"

text \<open>
  \<open>handle_file\<close> returns the state it leaves and the exception it raised, if any: the
  sets are updated before \<open>mkdir\<close> can fail.
\<close>

definition handle_file :: "path \<Rightarrow> cleaner \<Rightarrow> path \<Rightarrow> cleaner \<times> error option" where
  "handle_file root st file_path =
     (let new_name = new_name_of file_path;
          extension = extension_of file_path;
          (target_path, st1) =
            (case get_target_folder root extension of
               Some t \<Rightarrow> (t, st\<lparr>known_formats := insert extension (known_formats st)\<rparr>)
             | None \<Rightarrow>
                 (parent file_path, st\<lparr>unknown_formats := insert extension (unknown_formats st)\<rparr>))
      in case mkdir_exist_ok (disk st1) target_path of
           Inl e \<Rightarrow> (st1, Some e)
         | Inr fs' \<Rightarrow>
             (let st2 = st1\<lparr>disk := fs'\<rparr>;
                  target_path = joinpath target_path new_name
              in if target_path \<noteq> file_path
                 then (execute_in_thread st2 (MoveFile file_path target_path), None)
                 else (st2, None)))"

fun scan_entries :: "path \<Rightarrow> cleaner \<Rightarrow> path list \<Rightarrow> cleaner \<times> error option" where
  "scan_entries root st [] = (st, None)"
| "scan_entries root st (cur_path # rest) =
     (if cur_path \<in> set (target_pathes root) then scan_entries root st rest
      else if is_file (disk st) cur_path then
        (case handle_file root st cur_path of
           (st', Some e) \<Rightarrow> (st', Some e)
         | (st', None) \<Rightarrow> scan_entries root st' rest)
      else if is_dir (disk st) cur_path then
        scan_entries root
          (execute_in_thread (st\<lparr>folders := folders st @ [cur_path]\<rparr>) (ScanDir cur_path)) rest
      else scan_entries root st rest)"

definition scan_dir :: "path \<Rightarrow> cleaner \<Rightarrow> path \<Rightarrow> cleaner \<times> error option" where
  "scan_dir root st cur_dir =
     (case iterdir (disk st) cur_dir of
        Inl e \<Rightarrow> (st, Some e)
      | Inr cur_paths \<Rightarrow> scan_entries root st cur_paths)"

text \<open>One round of the loop of \<open>handle_folders\<close>, for the folder just popped.\<close>

definition handle_folder :: "platform \<Rightarrow> filesystem \<Rightarrow> path \<Rightarrow> (error + filesystem) option" where
  "handle_folder pl fs folder_path =
     (case path_exists fs folder_path of
        Inl e \<Rightarrow> Some (Inl e)
      | Inr False \<Rightarrow> Some (Inr fs)
      | Inr True \<Rightarrow>
        (let new_name = normalize (stem folder_path)
         in case iterdir fs folder_path of
              Inl e \<Rightarrow> Some (Inl e)
            | Inr content \<Rightarrow>
                if content = [] then
                  Some (Inr (case rmdir fs folder_path of Inl e \<Rightarrow> fs | Inr fs' \<Rightarrow> fs'))
                else if new_name \<noteq> name folder_path then
                  move_file pl fs folder_path (joinpath (parent folder_path) new_name)
                else Some (Inr fs)))"

partial_function (option) handle_folders ::
  "platform \<Rightarrow> cleaner \<Rightarrow> (cleaner \<times> error option) option" where
  "handle_folders pl st =
     (if folders st = [] then Some (st, None)
      else
        (let folder_path = last (folders st);
             st1 = st\<lparr>folders := butlast (folders st)\<rparr>
         in case handle_folder pl (disk st1) folder_path of
              None \<Rightarrow> None
            | Some (Inl e) \<Rightarrow> Some (st1, Some e)
            | Some (Inr fs') \<Rightarrow> handle_folders pl (st1\<lparr>disk := fs'\<rparr>)))"

declare handle_folders.simps [code]

text \<open>
  \<open>shutil.unpack_archive\<close> is a parameter \<open>unp\<close> of the model: given the file
  system, the archive and the directory to extract to, it returns the file system it
  leaves and the exception it raised, if any.
\<close>

type_synonym unpacker = "filesystem \<Rightarrow> path \<Rightarrow> path \<Rightarrow> filesystem \<times> error option"

text \<open>
  An unpacker with the format check of \<open>shutil.unpack_archive\<close>: the format is found
  by the end of the file name among the registered extensions, and a name with none of
  them raises \<open>ReadError\<close> before anything is written. The archive reader is the
  parameter \<open>members\<close>: the entries stored in a file's content, with paths relative to
  the directory extracted to, or \<open>None\<close> for a content it cannot read.
\<close>

definition unpack_extensions :: "ustr list" where
  "unpack_extensions =
     map u [''.tar.bz2'', ''.tbz2'', ''.tar.gz'', ''.tgz'', ''.tar'', ''.tar.xz'', ''.txz'', ''.zip'']"

definition unpack_archive :: "(nat \<Rightarrow> (path \<times> node) list option) \<Rightarrow> unpacker" where
  "unpack_archive members fs filename extract_dir =
     (if \<not> list_ex (endswith (name filename)) unpack_extensions then (fs, Some ReadError)
      else
        (case node_at fs filename of
           Some (File c) \<Rightarrow>
             (case members c of
                None \<Rightarrow> (fs, Some ReadError)
              | Some ms \<Rightarrow>
                  (map (\<lambda>(k, v). (extract_dir @ k, v)) ms @ (extract_dir, Dir) # fs, None))
         | Some Dir \<Rightarrow> (fs, Some IsADirectoryError)
         | None \<Rightarrow> (fs, Some FileNotFoundError)))"

definition handle_archive :: "unpacker \<Rightarrow> cleaner \<Rightarrow> path \<Rightarrow> cleaner \<times> error option" where
  "handle_archive unp st p =
     (let folder = parent p
      in case unp (disk st) p (joinpath folder (stem p)) of
           (fs1, Some e) \<Rightarrow> (st\<lparr>disk := fs1\<rparr>, Some e)
         | (fs1, None) \<Rightarrow>
             (case unlink fs1 p of
                Inl e \<Rightarrow> (st\<lparr>disk := fs1\<rparr>, Some e)
              | Inr fs2 \<Rightarrow> (st\<lparr>disk := fs2\<rparr>, None)))"

fun dispatch_archives :: "cleaner \<Rightarrow> path list \<Rightarrow> cleaner" where
  "dispatch_archives st [] = st"
| "dispatch_archives st (arch # rest) =
     (if is_dir (disk st) arch then dispatch_archives st rest
      else dispatch_archives (execute_in_thread st (HandleArchive arch)) rest)"

fun postprocessing_loop :: "cleaner \<Rightarrow> path list \<Rightarrow> cleaner \<times> error option" where
  "postprocessing_loop st [] = (st, None)"
| "postprocessing_loop st (folder # rest) =
     (case path_exists (disk st) folder of
        Inl e \<Rightarrow> (st, Some e)
      | Inr False \<Rightarrow> postprocessing_loop st rest
      | Inr True \<Rightarrow>
        (case (if name folder = u ''archives''
               then (case iterdir (disk st) folder of
                       Inl e \<Rightarrow> Inl e
                     | Inr archs \<Rightarrow> Inr (dispatch_archives st archs))
               else Inr st) of
           Inl e \<Rightarrow> (st, Some e)
         | Inr st' \<Rightarrow>
             (case iterdir (disk st') folder of
                Inl e \<Rightarrow> (st', Some e)
              | Inr objs \<Rightarrow> postprocessing_loop st' rest)))"

definition postprocessing :: "path \<Rightarrow> cleaner \<Rightarrow> cleaner \<times> error option" where
  "postprocessing root st = postprocessing_loop st (target_pathes root)"

section \<open>The executor\<close>

text \<open>
  A task runs as a whole. \<open>run_task\<close> is what a worker does with one task: the state
  it leaves and the exception the future keeps, if any; \<open>None\<close> when the task never
  ends.
\<close>

definition run_task ::
  "platform \<Rightarrow> path \<Rightarrow> unpacker \<Rightarrow> cleaner \<Rightarrow> task \<Rightarrow> (cleaner \<times> error option) option" where
  "run_task pl root unp st t =
     (case t of
        ScanDir cur_dir \<Rightarrow> Some (scan_dir root st cur_dir)
      | MoveFile old_path new_path \<Rightarrow>
          (case move_file pl (disk st) old_path new_path of
             None \<Rightarrow> None
           | Some (Inl e) \<Rightarrow> Some (st, Some e)
           | Some (Inr fs') \<Rightarrow> Some (st\<lparr>disk := fs'\<rparr>, None))
      | HandleArchive p \<Rightarrow> Some (handle_archive unp st p))"

text \<open>
  \<open>wait_for_result\<close> with one worker that takes the tasks in the order of submission:
  \<open>future.result()\<close> of the first future waits for its task and re-raises what the
  task raised; a task may submit further tasks, which the loop over \<open>thread_pool\<close>
  reaches in turn. When every result has been collected, \<open>thread_pool\<close> is empty.
\<close>

partial_function (option) wait_for_result ::
  "platform \<Rightarrow> path \<Rightarrow> unpacker \<Rightarrow> cleaner \<Rightarrow> (cleaner \<times> error option) option" where
  "wait_for_result pl root unp st =
     (case thread_pool st of
        [] \<Rightarrow> Some (st, None)
      | t # ts \<Rightarrow>
          (case run_task pl root unp (st\<lparr>thread_pool := ts\<rparr>) t of
             None \<Rightarrow> None
           | Some (st', Some e) \<Rightarrow> Some (st', Some e)
           | Some (st', None) \<Rightarrow> wait_for_result pl root unp st'))"

declare wait_for_result.simps [code]

text \<open>
  \<open>executor.shutdown()\<close> waits until every submitted task has run; what a task raised
  stays in its future, which nobody reads.
\<close>

partial_function (option) shutdown ::
  "platform \<Rightarrow> path \<Rightarrow> unpacker \<Rightarrow> cleaner \<Rightarrow> cleaner option" where
  "shutdown pl root unp st =
     (case thread_pool st of
        [] \<Rightarrow> Some st
      | t # ts \<Rightarrow>
          (case run_task pl root unp (st\<lparr>thread_pool := ts\<rparr>) t of
             None \<Rightarrow> None
           | Some (st', r) \<Rightarrow> shutdown pl root unp st'))"

declare shutdown.simps [code]

text \<open>
  Any schedule: \<open>exec pl root unp st st'\<close> when \<open>st'\<close> is reached from \<open>st\<close> by
  running pending tasks one after the other, in any order.
\<close>

inductive exec :: "platform \<Rightarrow> path \<Rightarrow> unpacker \<Rightarrow> cleaner \<Rightarrow> cleaner \<Rightarrow> bool"
  for pl :: platform and root :: path and unp :: unpacker where
  exec_refl: "exec pl root unp st st"
| exec_step:
    "exec pl root unp st st1 \<Longrightarrow> thread_pool st1 = ts @ t # ts' \<Longrightarrow>
     run_task pl root unp (st1\<lparr>thread_pool := ts @ ts'\<rparr>) t = Some (st2, r) \<Longrightarrow>
     exec pl root unp st st2"

section \<open>main\<close>

text \<open>
  \<open>argv\<close> is the command line with every argument read as a path. \<open>main\<close> returns a
  value or ends with an uncaught exception; the script calls \<open>main()\<close> and drops the
  value, so the exit status of the process is 1 for an uncaught exception and 0
  otherwise.
\<close>

datatype outcome = Returned nat | Raised error

definition init_cleaner :: "filesystem \<Rightarrow> path \<Rightarrow> error + cleaner" where
  "init_cleaner fs0 p =
     (case path_exists fs0 p of
        Inl e \<Rightarrow> Inl e
      | Inr found \<Rightarrow>
          if found \<and> is_dir fs0 p
          then Inr \<lparr>disk = fs0, known_formats = {}, unknown_formats = {}, thread_pool = [],
                    folders = []\<rparr>
          else Inl ValueError)"

text \<open>
  When \<open>main\<close> ends with an uncaught exception, the interpreter still waits for the
  workers, which run the tasks submitted so far before the process exits. Whether a
  task that runs at that time can still submit further tasks depends on the timing;
  here it can, as under \<open>shutdown\<close>.
\<close>

definition uncaught ::
  "platform \<Rightarrow> path \<Rightarrow> unpacker \<Rightarrow> cleaner \<Rightarrow> error \<Rightarrow> (outcome \<times> cleaner) option" where
  "uncaught pl root unp st e =
     (case shutdown pl root unp st of
        None \<Rightarrow> None
      | Some st' \<Rightarrow> Some (Raised e, st'))"

definition after_scan ::
  "platform \<Rightarrow> path \<Rightarrow> unpacker \<Rightarrow> cleaner \<Rightarrow> (outcome \<times> cleaner) option" where
  "after_scan pl root unp st0 =
     (case wait_for_result pl root unp st0 of
        None \<Rightarrow> None
      | Some (st1, Some e) \<Rightarrow> uncaught pl root unp st1 e
      | Some (st1, None) \<Rightarrow>
          (case handle_folders pl st1 of
             None \<Rightarrow> None
           | Some (st2, Some e) \<Rightarrow> uncaught pl root unp st2 e
           | Some (st2, None) \<Rightarrow>
               (case postprocessing root st2 of
                  (st3, Some e) \<Rightarrow> uncaught pl root unp st3 e
                | (st3, None) \<Rightarrow>
                    (case shutdown pl root unp st3 of
                       None \<Rightarrow> None
                     | Some st4 \<Rightarrow> Some (Returned 0, st4)))))"

definition main ::
  "platform \<Rightarrow> unpacker \<Rightarrow> path list \<Rightarrow> filesystem \<Rightarrow> (outcome \<times> filesystem) option" where
  "main pl unp argv fs0 =
     (if length argv < 2 then Some (Returned 1, fs0)
      else
        (let working_folder = argv ! 1
         in case init_cleaner fs0 working_folder of
              Inl e \<Rightarrow> Some (Raised e, fs0)
            | Inr cleaner \<Rightarrow>
                map_option (\<lambda>(r, st). (r, disk st))
                  (case scan_dir working_folder cleaner working_folder of
                     (st0, Some e) \<Rightarrow> uncaught pl working_folder unp st0 e
                   | (st0, None) \<Rightarrow> after_scan pl working_folder unp st0)))"

definition exit_status :: "outcome \<Rightarrow> nat" where
  "exit_status r = (case r of Raised e \<Rightarrow> 1 | Returned v \<Rightarrow> 0)"

section \<open>Evaluation on concrete paths and file systems\<close>

lemmas path_simps =
  name_def parent_def suffix_def stem_def name_suffix_def name_stem_def joinpath_def
  with_name_def removesuffix_def removeprefix_def endswith_def u_def

lemmas fs_simps =
  node_at_def exists_def is_dir_def is_file_def entries_def iterdir_def remove_entry_def
  below_def relocate_def move_tree_def path_exists_def too_long_def name_bytes_def
  utf8_len_def NAME_MAX_def walk_parent_def

section \<open>Facts about the Unicode tables\<close>

lemma in_ranges_ascii_tail: "\<exists>rs. alnum_ranges = (48, 57) # (65, 90) # (97, 122) # (170, 170) # rs"
  by (simp add: alnum_ranges_def)

lemma isalnum_ascii:
  assumes "c < 128"
  shows "isalnum c \<longleftrightarrow> (48 \<le> c \<and> c \<le> 57) \<or> (65 \<le> c \<and> c \<le> 90) \<or> (97 \<le> c \<and> c \<le> 122)"
proof -
  obtain rs where rs: "alnum_ranges = (48, 57) # (65, 90) # (97, 122) # (170, 170) # rs"
    using in_ranges_ascii_tail by blast
  show ?thesis
    unfolding isalnum_def rs using assms by auto
qed

lemma isalnum_e_acute: "isalnum 233"
  by (simp add: isalnum_def alnum_ranges_def)


lemma in_ranges_skip:
  "list_all (\<lambda>(lo, hi). lo \<le> b \<and> hi < b) rs1 \<Longrightarrow> b \<le> c \<Longrightarrow>
     in_ranges c (rs1 @ rs2) = in_ranges c rs2"
  by (induction rs1) auto

lemma alnum_ranges_low: "list_all (\<lambda>(lo, hi). lo \<le> 1015 \<and> hi < 1015) (take 24 alnum_ranges)"
  by (simp add: alnum_ranges_def)

lemma alnum_ranges_cyrillic:
  "\<exists>rs. drop 24 alnum_ranges = (1015, 1153) # (1162, 1327) # rs"
  by (simp add: alnum_ranges_def)

lemma isalnum_cyrillic:
  assumes "1015 \<le> c" and "c \<le> 1327"
  shows "isalnum c \<longleftrightarrow> c \<le> 1153 \<or> 1162 \<le> c"
proof -
  obtain rs where rs: "drop 24 alnum_ranges = (1015, 1153) # (1162, 1327) # rs"
    using alnum_ranges_cyrillic by blast
  have "in_ranges c alnum_ranges = in_ranges c (take 24 alnum_ranges @ drop 24 alnum_ranges)"
    by simp
  also have "\<dots> = in_ranges c (drop 24 alnum_ranges)"
    using alnum_ranges_low assms(1) by (rule in_ranges_skip)
  also have "\<dots> \<longleftrightarrow> c \<le> 1153 \<or> 1162 \<le> c"
    unfolding rs using assms by auto
  finally show ?thesis by (simp add: isalnum_def)
qed

lemma upper_rule_skip:
  "list_all (\<lambda>(lo, hi, st, t). lo \<le> b \<and> hi < b) rs1 \<Longrightarrow> b \<le> c \<Longrightarrow>
     upper_rule c (rs1 @ rs2) = upper_rule c rs2"
  by (induction rs1) auto

lemma upper_rules_head: "\<exists>rs. upper_rules = (97, 122, 1, 65) # (181, 181, 1, 924) # rs"
  by (simp add: upper_rules_def)

lemma upper_rules_low:
  "list_all (\<lambda>(lo, hi, st, t). lo \<le> 1072 \<and> hi < 1072) (take 106 upper_rules)"
  by (simp add: upper_rules_def)

lemma upper_rules_cyrillic:
  "\<exists>rs. drop 106 upper_rules =
     (1072, 1103, 1, 1040) # (1104, 1119, 1, 1024) # (1121, 1153, 2, 1120) #
     (1163, 1215, 2, 1162) # rs"
  by (simp add: upper_rules_def)

lemma upper_special_keys: "list_all (\<lambda>(k, v). 223 \<le> k) upper_special"
  by (simp add: upper_special_def)

lemma upper_special_ascii:
  assumes "c < 128"
  shows "map_of upper_special c = None"
proof -
  have "\<forall>(k, v) \<in> set upper_special. 223 \<le> k"
    using upper_special_keys by (simp add: list_all_iff)
  with assms have "c \<notin> fst ` set upper_special" by force
  then show ?thesis by (simp add: map_of_eq_None_iff)
qed

lemma upper_char_ascii:
  assumes "c < 128"
  shows "upper_char c = (if 97 \<le> c \<and> c \<le> 122 then [c - 32] else [c])"
proof -
  obtain rs where rs: "upper_rules = (97, 122, 1, 65) # (181, 181, 1, 924) # rs"
    using upper_rules_head by blast
  have "upper_rule c upper_rules = (if 97 \<le> c \<and> c \<le> 122 then Some (c - 32) else None)"
    unfolding rs using assms by auto
  then show ?thesis
    using assms by (simp add: upper_char_def upper_special_ascii)
qed

lemma upper_char_cyrillic:
  assumes "1072 \<le> c" "c \<le> 1119 \<or> c = 1169"
  shows "upper_char c = (if c \<le> 1103 then [c - 32] else if c \<le> 1119 then [c - 80] else [1168])"
proof -
  obtain rs where rs: "drop 106 upper_rules =
     (1072, 1103, 1, 1040) # (1104, 1119, 1, 1024) # (1121, 1153, 2, 1120) #
     (1163, 1215, 2, 1162) # rs"
    using upper_rules_cyrillic by blast
  have "upper_rule c upper_rules = upper_rule c (take 106 upper_rules @ drop 106 upper_rules)"
    by simp
  also have "\<dots> = upper_rule c (drop 106 upper_rules)"
    using upper_rules_low assms(1) by (rule upper_rule_skip)
  also have "\<dots> = (if c \<le> 1103 then Some (c - 32) else if c \<le> 1119 then Some (c - 80) else Some 1168)"
    unfolding rs using assms by auto
  finally show ?thesis by (simp add: upper_char_def)
qed

lemma upper_ascii:
  "list_all (\<lambda>c. c < 128) s \<Longrightarrow>
     upper s = map (\<lambda>c. if 97 \<le> c \<and> c \<le> 122 then c - 32 else c) s"
  by (induction s) (auto simp: upper_def upper_char_ascii)

lemma isalnum_hard_soft_sign: "isalnum 1098 \<and> isalnum 1100"
  by (simp add: isalnum_cyrillic)

section \<open>Normalize\<close>

lemma gen_trans_dict_returns: "gen_trans_dict = Some
  [(1168, [71]), (1169, [103]), (1031, [74, 73]), (1111, [106, 105]),
   (1030, [73]), (1110, [105]), (1028, [74, 69]), (1108, [106, 101]),
   (1071, [89, 65]), (1103, [121, 97]), (1070, [89, 85]),
   (1102, [121, 117]), (1069, [69]), (1101, [101]), (1068, []), (1100, []),
   (1067, [89]), (1099, [121]), (1066, []), (1098, []),
   (1065, [83, 67, 72]), (1097, [115, 99, 104]), (1064, [83, 72]),
   (1096, [115, 104]), (1063, [67, 72]), (1095, [99, 104]),
   (1062, [84, 83]), (1094, [116, 115]), (1061, [72]), (1093, [104]),
   (1060, [70]), (1092, [102]), (1059, [85]), (1091, [117]), (1058, [84]),
   (1090, [116]), (1057, [83]), (1089, [115]), (1056, [82]), (1088, [114]),
   (1055, [80]), (1087, [112]), (1054, [79]), (1086, [111]), (1053, [78]),
   (1085, [110]), (1052, [77]), (1084, [109]), (1051, [76]), (1083, [108]),
   (1050, [75]), (1082, [107]), (1049, [74]), (1081, [106]), (1048, [73]),
   (1080, [105]), (1047, [90]), (1079, [122]), (1046, [74]), (1078, [106]),
   (1025, [69]), (1105, [101]), (1045, [69]), (1077, [101]), (1044, [68]),
   (1076, [100]), (1043, [71]), (1075, [103]), (1042, [86]), (1074, [118]),
   (1041, [66]), (1073, [98]), (1040, [65]), (1072, [97])]"
  by (simp add: gen_trans_dict_def CYRILLIC_SYMBOLS_def TRANSLATION_def u_def
      upper_def upper_char_ascii upper_char_cyrillic)

lemma TRANS_DICT_eq: "TRANS_DICT =
  [(1168, [71]), (1169, [103]), (1031, [74, 73]), (1111, [106, 105]),
   (1030, [73]), (1110, [105]), (1028, [74, 69]), (1108, [106, 101]),
   (1071, [89, 65]), (1103, [121, 97]), (1070, [89, 85]),
   (1102, [121, 117]), (1069, [69]), (1101, [101]), (1068, []), (1100, []),
   (1067, [89]), (1099, [121]), (1066, []), (1098, []),
   (1065, [83, 67, 72]), (1097, [115, 99, 104]), (1064, [83, 72]),
   (1096, [115, 104]), (1063, [67, 72]), (1095, [99, 104]),
   (1062, [84, 83]), (1094, [116, 115]), (1061, [72]), (1093, [104]),
   (1060, [70]), (1092, [102]), (1059, [85]), (1091, [117]), (1058, [84]),
   (1090, [116]), (1057, [83]), (1089, [115]), (1056, [82]), (1088, [114]),
   (1055, [80]), (1087, [112]), (1054, [79]), (1086, [111]), (1053, [78]),
   (1085, [110]), (1052, [77]), (1084, [109]), (1051, [76]), (1083, [108]),
   (1050, [75]), (1082, [107]), (1049, [74]), (1081, [106]), (1048, [73]),
   (1080, [105]), (1047, [90]), (1079, [122]), (1046, [74]), (1078, [106]),
   (1025, [69]), (1105, [101]), (1045, [69]), (1077, [101]), (1044, [68]),
   (1076, [100]), (1043, [71]), (1075, [103]), (1042, [86]), (1074, [118]),
   (1041, [66]), (1073, [98]), (1040, [65]), (1072, [97])]"
  by (simp add: TRANS_DICT_def gen_trans_dict_returns)

lemma TRANS_DICT_values: "(k, v) \<in> set TRANS_DICT \<Longrightarrow> c \<in> set v \<Longrightarrow> ascii_word c"
  unfolding TRANS_DICT_eq by (auto simp: ascii_word_def)

lemma normalize_concat: "normalize s = concat (map normalize_char s)"
proof -
  have "foldl (\<lambda>acc char. acc @ normalize_char char) acc s = acc @ concat (map normalize_char s)"
    for acc
    by (induction s arbitrary: acc) simp_all
  then show ?thesis by (simp add: normalize_def)
qed

lemma normalize_Nil [simp]: "normalize [] = []"
  by (simp add: normalize_def)

lemma normalize_Cons: "normalize (c # s) = normalize_char c @ normalize s"
  by (simp add: normalize_concat)

lemma normalize_append: "normalize (s @ t) = normalize s @ normalize t"
  by (simp add: normalize_concat)

lemma normalize_char_cases:
  assumes "d \<in> set (normalize_char c)"
  shows "ascii_word d \<or> (d = c \<and> isalnum c \<and> map_of TRANS_DICT c = None \<and> 128 \<le> c)"
proof (cases "isalnum c")
  case False
  with assms show ?thesis by (simp add: normalize_char_def u_def ascii_word_def)
next
  case True
  show ?thesis
  proof (cases "map_of TRANS_DICT c")
    case (Some l)
    with True assms have "d \<in> set l" by (simp add: normalize_char_def)
    moreover from Some have "(c, l) \<in> set TRANS_DICT" by (rule map_of_SomeD)
    ultimately show ?thesis using TRANS_DICT_values by blast
  next
    case None
    with True assms have d: "d = c" by (simp add: normalize_char_def)
    show ?thesis
    proof (cases "c < 128")
      case True
      with \<open>isalnum c\<close> have "ascii_word c" by (auto simp: isalnum_ascii ascii_word_def)
      with d show ?thesis by simp
    next
      case False
      with d None \<open>isalnum c\<close> show ?thesis by simp
    qed
  qed
qed

lemma normalize_char_ascii:
  "c < 128 \<Longrightarrow> normalize_char c = (if isalnum c then [c] else [95])"
  by (simp add: normalize_char_def TRANS_DICT_eq u_def)

lemma normalize_char_e_acute: "normalize_char 233 = [233]"
  by (simp add: normalize_char_def isalnum_e_acute TRANS_DICT_eq)

lemma normalize_char_signs: "normalize_char 1098 = [] \<and> normalize_char 1100 = []"
  by (simp add: normalize_char_def isalnum_hard_soft_sign TRANS_DICT_eq)

text \<open>
  C3 (as stated, refuted): the character U+00E9 is alphanumeric and not in the table, so
  \<open>normalize\<close> returns it unchanged, and it is not in \<open>[A-Za-z0-9_]\<close>.
\<close>

theorem normalize_keeps_e_acute: "normalize [233] = [233] \<and> \<not> ascii_word 233"
  by (simp add: normalize_Cons normalize_char_e_acute ascii_word_def)

lemma normalize_single: "normalize [c] = normalize_char c"
  by (simp add: normalize_Cons)

lemma normalize_table_letters:
  "list_all2 (\<lambda>c l. normalize [c] = l \<and> normalize (upper [c]) = upper l)
     CYRILLIC_SYMBOLS TRANSLATION"
  by (simp add: CYRILLIC_SYMBOLS_def TRANSLATION_def u_def upper_def upper_char_ascii
      upper_char_cyrillic normalize_single normalize_char_def isalnum_cyrillic TRANS_DICT_eq)

lemma TRANS_DICT_keys:
  "fst ` set TRANS_DICT = set CYRILLIC_SYMBOLS \<union> set (upper CYRILLIC_SYMBOLS)"
  by (simp add: TRANS_DICT_eq CYRILLIC_SYMBOLS_def upper_def upper_char_cyrillic) blast

text \<open>
  C3 (amended): \<open>normalize\<close> maps the input character by character: a character
  that is not alphanumeric becomes one underscore; the \<open>i\<close>-th letter of
  \<open>CYRILLIC_SYMBOLS\<close> becomes the \<open>i\<close>-th entry of \<open>TRANSLATION\<close> and its upper
  case the upper case of that entry; an alphanumeric character that is not one of these
  letters passes through unchanged. So every character of the output is in
  \<open>[A-Za-z0-9_]\<close> or is a character of the input that is alphanumeric, outside ASCII
  and not in the table.
\<close>

theorem normalize_output_chars:
  "normalize [] = [] \<and> normalize (s @ t) = normalize s @ normalize t
   \<and> (\<not> isalnum c \<longrightarrow> normalize [c] = u ''_'')
   \<and> list_all2 (\<lambda>c l. normalize [c] = l \<and> normalize (upper [c]) = upper l)
         CYRILLIC_SYMBOLS TRANSLATION
   \<and> (isalnum c \<and> c \<notin> set CYRILLIC_SYMBOLS \<union> set (upper CYRILLIC_SYMBOLS) \<longrightarrow>
         normalize [c] = [c])
   \<and> (d \<in> set (normalize s) \<longrightarrow>
         ascii_word d \<or>
         (d \<in> set s \<and> isalnum d \<and> 128 \<le> d
          \<and> d \<notin> set CYRILLIC_SYMBOLS \<union> set (upper CYRILLIC_SYMBOLS)))"
proof -
  have key: "map_of TRANS_DICT x = None \<longleftrightarrow>
      x \<notin> set CYRILLIC_SYMBOLS \<union> set (upper CYRILLIC_SYMBOLS)" for x
    by (simp only: map_of_eq_None_iff TRANS_DICT_keys)
  have under: "normalize [c] = u ''_''" if "\<not> isalnum c"
    using that by (simp add: normalize_single normalize_char_def)
  have keep: "normalize [c] = [c]"
    if "isalnum c" "c \<notin> set CYRILLIC_SYMBOLS \<union> set (upper CYRILLIC_SYMBOLS)"
    using that key [of c] by (simp add: normalize_single normalize_char_def)
  have chars: "ascii_word d \<or>
      (d \<in> set s \<and> isalnum d \<and> 128 \<le> d
       \<and> d \<notin> set CYRILLIC_SYMBOLS \<union> set (upper CYRILLIC_SYMBOLS))"
    if "d \<in> set (normalize s)"
  proof -
    from that obtain x where "x \<in> set s" "d \<in> set (normalize_char x)"
      by (auto simp: normalize_concat)
    with normalize_char_cases [of d x] key [of d] show ?thesis by auto
  qed
  from under keep chars normalize_table_letters normalize_append [of s t]
  show ?thesis by simp
qed

theorem normalize_output_chars_witness:
  "normalize [1098, 32, 233, 1065, 1097] = [95, 233] @ u ''SCH'' @ u ''sch''
   \<and> \<not> isalnum 32 \<and> normalize [32] = u ''_''
   \<and> isalnum 233 \<and> 233 \<notin> set CYRILLIC_SYMBOLS \<union> set (upper CYRILLIC_SYMBOLS)
   \<and> normalize [233] = [233]
   \<and> 233 \<in> set (normalize [1098, 32, 233, 1065, 1097]) \<and> \<not> ascii_word 233"
proof -
  let ?s = "[1098, 32, 233, 1065, 1097]"
  have n: "normalize ?s = [95, 233] @ u ''SCH'' @ u ''sch''"
    by (simp add: normalize_Cons normalize_char_def isalnum_cyrillic isalnum_e_acute
        isalnum_ascii TRANS_DICT_eq u_def)
  have a: "\<not> isalnum 32" by (simp add: isalnum_ascii)
  have b: "isalnum 233" by (rule isalnum_e_acute)
  have c: "233 \<notin> set CYRILLIC_SYMBOLS \<union> set (upper CYRILLIC_SYMBOLS)"
    by (simp add: CYRILLIC_SYMBOLS_def upper_def upper_char_cyrillic)
  have m: "233 \<in> set (normalize ?s)" by (simp add: n)
  note t = normalize_output_chars [where c = 32 and s = "[]" and t = "[]" and d = 233]
    normalize_output_chars [where c = 233 and s = ?s and t = "[]" and d = 233]
  from t(1) a have "normalize [32] = u ''_''" by blast
  moreover from t(2) b c have "normalize [233] = [233]" by blast
  moreover have "\<not> ascii_word 233" by (simp add: ascii_word_def)
  ultimately show ?thesis using n a b c m by blast
qed

text \<open>
  C10: the table sends the hard sign (U+044A) and the soft sign (U+044C) to the empty
  string, so the non-empty name made of these two letters is normalized to the empty
  string, and the new name \<open>handle_file\<close> computes for such a file with the suffix
  \<open>.txt\<close> is the suffix alone.
\<close>

theorem normalize_can_return_empty:
  "[1098, 1100] \<noteq> [] \<and> map_of TRANS_DICT 1098 = Some [] \<and> map_of TRANS_DICT 1100 = Some []
   \<and> normalize [1098, 1100] = []
   \<and> new_name_of [u ''tresh'', [1098, 1100] @ u ''.txt''] = u ''.txt''"
  by (simp add: normalize_Cons normalize_char_signs TRANS_DICT_eq new_name_of_def stem_def
      suffix_def name_def name_stem_def name_suffix_def u_def)

section \<open>gen\_unique\_name returns\<close>

text \<open>
  The loop ends because a name that holds the digits of \<open>idx\<close> is, for \<open>idx\<close> large
  enough, longer than every name in the (finite) file system.
\<close>

definition max_name_len :: "filesystem \<Rightarrow> nat" where
  "max_name_len fs = Max (insert 0 ((\<lambda>(p, n). length (name p)) ` set fs))"

lemma str_bound: "n < 10 ^ length (str n)"
proof (induction n rule: str.induct)
  case (1 n)
  show ?case
  proof (cases "n < 10")
    case True
    then show ?thesis by (simp add: str.simps)
  next
    case False
    with 1 have "n div 10 < 10 ^ length (str (n div 10))" by simp
    then have "n < 10 * 10 ^ length (str (n div 10))" by linarith
    with False show ?thesis by (subst str.simps) simp
  qed
qed

lemma str_not_Nil [simp]: "str n \<noteq> []"
  by (subst str.simps) simp

lemma str_digits: "c \<in> set (str n) \<Longrightarrow> 48 \<le> c \<and> c \<le> 57"
proof (induction n rule: str.induct)
  case (1 n)
  show ?case
  proof (cases "n < 10")
    case True
    with "1.prems" show ?thesis by (simp add: str.simps)
  next
    case False
    with "1.prems" have "c \<in> set (str (n div 10)) \<or> c = 48 + n mod 10"
      by (subst (asm) str.simps) auto
    then show ?thesis
    proof
      assume "c \<in> set (str (n div 10))"
      with 1 False show ?thesis by simp
    next
      assume "c = 48 + n mod 10"
      moreover have "n mod 10 < 10" by simp
      ultimately show ?thesis by linarith
    qed
  qed
qed

lemma exists_name_len:
  assumes "exists fs p" "p \<noteq> []"
  shows "length (name p) \<le> max_name_len fs"
proof -
  from assms obtain n where "(p, n) \<in> set fs"
    by (auto simp: exists_def node_at_def dest: map_of_SomeD)
  then have "length (name p) \<in> insert 0 ((\<lambda>(p, n). length (name p)) ` set fs)"
    by force
  then show ?thesis
    unfolding max_name_len_def by (intro Max_ge) auto
qed

lemma with_name_Inr:
  "with_name p n = Inr q \<longleftrightarrow> p \<noteq> [] \<and> n \<noteq> [] \<and> q = butlast p @ [n]"
  by (auto simp: with_name_def)

lemma long_name_not_exists:
  assumes "10 ^ max_name_len fs \<le> k"
  shows "\<not> exists fs (d @ [a @ str k @ b])"
proof
  assume "exists fs (d @ [a @ str k @ b])"
  then have "length (name (d @ [a @ str k @ b])) \<le> max_name_len fs"
    by (rule exists_name_len) simp
  then have "length (str k) \<le> max_name_len fs" by (simp add: name_def)
  then have "(10::nat) ^ length (str k) \<le> 10 ^ max_name_len fs" by simp
  with str_bound [of k] assms show False by linarith
qed

lemma gen_unique_name_loop_decreases:
  assumes "exists fs new_path"
  shows "2 * (10 ^ max_name_len fs - (idx + 1))
           + (if exists fs (butlast new_path @ [start_name @ str (idx + 1) @ sfx]) then 1 else 0)
         < 2 * (10 ^ max_name_len fs - idx) + (if exists fs new_path then 1 else (0::nat))"
proof (cases "idx < 10 ^ max_name_len fs")
  case True
  then have "10 ^ max_name_len fs - Suc idx < 10 ^ max_name_len fs - idx" by linarith
  with assms show ?thesis by simp
next
  case False
  then have "10 ^ max_name_len fs \<le> idx + 1" by simp
  then have "\<not> exists fs (butlast new_path @ [start_name @ str (idx + 1) @ sfx])"
    by (rule long_name_not_exists)
  with assms False show ?thesis by simp
qed

termination gen_unique_name_loop
proof (relation "measure (\<lambda>(fs, start_name, idx, new_path).
    2 * (10 ^ max_name_len fs - idx) + (if exists fs new_path then 1 else 0))", goal_cases)
  case 1
  show ?case by simp
next
  case (2 fs start_name idx new_path found p)
  from 2(1,2) have ex: "exists fs new_path"
    by (auto simp: path_exists_def split: if_splits)
  from 2(3) have p: "p = butlast new_path @ [start_name @ str (idx + 1) @ suffix new_path]"
    by (simp add: with_name_Inr)
  from gen_unique_name_loop_decreases [OF ex, of idx start_name "suffix new_path"]
  show ?case unfolding p by simp
qed

declare gen_unique_name_loop.simps [simp del]

section \<open>The names gen\_unique\_name tries\<close>

text \<open>
  \<open>candidate p k\<close> is the path itself for \<open>k = 0\<close>, and otherwise its sibling named by
  the stem of \<open>p\<close>, the decimal digits of \<open>k\<close> and the suffix of \<open>p\<close>: the names the
  docstring of \<open>gen_unique_name\<close> and the specification describe.
\<close>

definition candidate :: "path \<Rightarrow> nat \<Rightarrow> path" where
  "candidate p k = (if k = 0 then p else butlast p @ [stem p @ str k @ suffix p])"

text \<open>
  C4 (the code breaks it): for the candidate \<open>d/abc.\<close>, whose name ends with a dot,
  with \<open>d/abc.\<close> and \<open>d/abc.1\<close> taken, the loop reads the suffix \<open>.1\<close> of
  \<open>d/abc.1\<close> (it re-reads \<open>new_path.suffix\<close> instead of keeping the suffix of the
  path it started from) and returns \<open>d/abc.2.1\<close>, although \<open>d/abc.2\<close> (the stem, 2,
  the empty suffix) is free.
\<close>

theorem gen_unique_name_trailing_dot:
  "gen_unique_name
     [([u ''d''], Dir), ([u ''d'', u ''abc.''], File 0), ([u ''d'', u ''abc.1''], File 0)]
     [u ''d'', u ''abc.''] = Inr [u ''d'', u ''abc.2.1'']
   \<and> candidate [u ''d'', u ''abc.''] 2 = [u ''d'', u ''abc.2'']
   \<and> \<not> exists
     [([u ''d''], Dir), ([u ''d'', u ''abc.''], File 0), ([u ''d'', u ''abc.1''], File 0)]
     [u ''d'', u ''abc.2'']"
  by (simp add: gen_unique_name_def gen_unique_name_loop.simps candidate_def str.simps
      path_simps fs_simps)

section \<open>move\_file\<close>

lemmas run_simps =
  main_def init_cleaner_def scan_dir_def handle_file_def after_scan_def uncaught_def
  wait_for_result.simps handle_folders.simps shutdown.simps move_file.simps run_task_def
  handle_folder_def handle_archive_def postprocessing_def target_pathes_def
  gen_formats_path_set_def FORMATS_DICT_def get_target_folder_def new_name_of_def
  extension_of_def execute_in_thread_def mkdir_exist_ok_def rmdir_def unlink_def rename_def
  gen_unique_name_def gen_unique_name_loop.simps str.simps
  lower_def lower_char_def upper_ascii normalize_Cons normalize_char_ascii isalnum_ascii
  path_simps fs_simps Let_def

lemma gen_unique_name_free:
  assumes "path_exists fs p = Inr False"
  shows "gen_unique_name fs p = Inr p"
  using assms by (simp add: gen_unique_name_def gen_unique_name_loop.simps)

text \<open>
  When \<open>rename\<close> fails although \<open>new_path.exists()\<close> is false, \<open>gen_unique_name\<close>
  gives \<open>new_path\<close> back, the same \<open>rename\<close> is tried again, and the loop never ends.
\<close>

lemma move_file_stuck:
  assumes "rename pl fs old_path new_path = Inl e" and "path_exists fs new_path = Inr False"
  shows "move_file pl fs old_path new_path = None"
proof (rule ccontr)
  assume "move_file pl fs old_path new_path \<noteq> None"
  then obtain y where y: "move_file pl fs old_path new_path = Some y" by auto
  have "\<not> ((\<exists>e. rename pl fs old_path new_path = Inl e) \<and> path_exists fs new_path = Inr False)"
  proof (rule move_file.raw_induct [OF _ y,
        where P = "\<lambda>pl fs old new y. \<not> ((\<exists>e. rename pl fs old new = Inl e) \<and> path_exists fs new = Inr False)"])
    fix f pl' fs' old' new' y'
    assume IH: "\<And>pl fs old new y. f pl fs old new = Some y \<Longrightarrow>
        \<not> ((\<exists>e. rename pl fs old new = Inl e) \<and> path_exists fs new = Inr False)"
      and body: "(case rename pl' fs' old' new' of
           Inl e \<Rightarrow> (case gen_unique_name fs' new' of Inl e' \<Rightarrow> Some (Inl e')
                     | Inr p \<Rightarrow> f pl' fs' old' p)
         | Inr fs'' \<Rightarrow> Some (Inr fs'')) = Some y'"
    show "\<not> ((\<exists>e. rename pl' fs' old' new' = Inl e) \<and> path_exists fs' new' = Inr False)"
    proof
      assume stuck: "(\<exists>e. rename pl' fs' old' new' = Inl e) \<and> path_exists fs' new' = Inr False"
      then have "gen_unique_name fs' new' = Inr new'" by (simp add: gen_unique_name_free)
      with stuck body have "f pl' fs' old' new' = Some y'" by auto
      from IH [OF this] stuck show False by simp
    qed
  qed
  with assms show False by auto
qed

text \<open>On Windows a successful \<open>rename\<close> never lands on an existing entry.\<close>

lemma rename_windows_no_replace:
  assumes "rename Windows fs src dst = Inr fs'" and "src \<noteq> dst"
  shows "\<not> exists fs dst"
  using assms
  by (auto simp: rename_def exists_def split: option.splits if_splits)

lemma main_windows_keeps_both:
  "main Windows unp [[u ''clean.py''], [u ''tresh'']]
     [([u ''tresh''], Dir), ([u ''tresh'', u ''a b.txt''], File 1),
      ([u ''tresh'', u ''a_b.txt''], File 2)]
   = Some (Returned 0,
      [([u ''tresh'', u ''documents''], Dir), ([u ''tresh''], Dir),
       ([u ''tresh'', u ''documents'', u ''a_b.txt''], File 1),
       ([u ''tresh'', u ''documents'', u ''a_b1.txt''], File 2)])"
  by (simp add: run_simps)

text \<open>
  C1 (the code breaks it on POSIX): the files \<open>a b.txt\<close> and \<open>a_b.txt\<close> of the root
  get the same new name and the same destination folder; on POSIX the second
  \<open>rename\<close> replaces the file the first one put there, no exception is raised, and
  after the run one file is left: the content \<open>1\<close> is lost.
\<close>

theorem posix_rename_overwrites_same_name:
  "new_name_of [u ''tresh'', u ''a b.txt''] = new_name_of [u ''tresh'', u ''a_b.txt'']
   \<and> get_target_folder [u ''tresh''] (extension_of [u ''tresh'', u ''a b.txt''])
       = Some [u ''tresh'', u ''documents'']
   \<and> get_target_folder [u ''tresh''] (extension_of [u ''tresh'', u ''a_b.txt''])
       = Some [u ''tresh'', u ''documents'']
   \<and> main Posix unp [[u ''clean.py''], [u ''tresh'']]
       [([u ''tresh''], Dir), ([u ''tresh'', u ''a b.txt''], File 1),
        ([u ''tresh'', u ''a_b.txt''], File 2)]
     = Some (Returned 0,
        [([u ''tresh'', u ''documents''], Dir), ([u ''tresh''], Dir),
         ([u ''tresh'', u ''documents'', u ''a_b.txt''], File 2)])"
  by (simp add: run_simps)

text \<open>
  C2 (the code breaks it): the source \<open>tresh/gone.txt\<close> does not exist, so \<open>rename\<close>
  raises \<open>FileNotFoundError\<close>, which is not a collision (nothing exists at the
  destination); \<open>move_file\<close> catches it, gets the same destination back from
  \<open>gen_unique_name\<close> and never returns, on either platform.
\<close>

theorem move_file_missing_source_never_returns:
  "rename pl [([u ''tresh''], Dir), ([u ''tresh'', u ''documents''], Dir)]
     [u ''tresh'', u ''gone.txt''] [u ''tresh'', u ''documents'', u ''gone.txt'']
     = Inl FileNotFoundError
   \<and> \<not> exists [([u ''tresh''], Dir), ([u ''tresh'', u ''documents''], Dir)]
       [u ''tresh'', u ''documents'', u ''gone.txt'']
   \<and> move_file pl [([u ''tresh''], Dir), ([u ''tresh'', u ''documents''], Dir)]
       [u ''tresh'', u ''gone.txt''] [u ''tresh'', u ''documents'', u ''gone.txt''] = None"
proof -
  let ?fs = "[([u ''tresh''], Dir), ([u ''tresh'', u ''documents''], Dir)]"
  let ?old = "[u ''tresh'', u ''gone.txt'']"
  let ?new = "[u ''tresh'', u ''documents'', u ''gone.txt'']"
  have r: "rename pl ?fs ?old ?new = Inl FileNotFoundError"
    by (simp add: rename_def path_simps fs_simps)
  have e: "\<not> exists ?fs ?new"
    by (simp add: path_simps fs_simps)
  have p: "path_exists ?fs ?new = Inr False"
    by (simp add: path_simps fs_simps)
  from move_file_stuck [OF r p] r e show ?thesis by simp
qed

section \<open>The shared sets and the scan\<close>

text \<open>
  \<open>formats_inv\<close>: the two sets agree with the classifier. \<open>inside root p\<close>: \<open>p\<close> is a
  destination folder or lies in one. \<open>pool_outside\<close>: no pending scan or move task, and
  no folder of the registry, is inside a destination folder.
\<close>

definition formats_inv :: "path \<Rightarrow> cleaner \<Rightarrow> bool" where
  "formats_inv root st =
     ((\<forall>e\<in>known_formats st. get_target_folder root e \<noteq> None) \<and>
      (\<forall>e\<in>unknown_formats st. get_target_folder root e = None))"

definition inside :: "path \<Rightarrow> path \<Rightarrow> bool" where
  "inside root p = list_ex (\<lambda>t. below t p) (target_pathes root)"

fun task_outside :: "path \<Rightarrow> task \<Rightarrow> bool" where
  "task_outside root (ScanDir cur_dir) = (\<not> inside root cur_dir)"
| "task_outside root (MoveFile old_path new_path) = (\<not> inside root old_path)"
| "task_outside root (HandleArchive p) = True"

definition pool_outside :: "path \<Rightarrow> cleaner \<Rightarrow> bool" where
  "pool_outside root st =
     ((\<forall>t\<in>set (thread_pool st). task_outside root t) \<and> (\<forall>d\<in>set (folders st). \<not> inside root d))"

lemma handle_file_known:
  "known_formats (fst (handle_file root st f)) =
     (case get_target_folder root (extension_of f) of
        Some t \<Rightarrow> insert (extension_of f) (known_formats st)
      | None \<Rightarrow> known_formats st)"
  by (simp add: handle_file_def Let_def execute_in_thread_def
      split: option.splits sum.splits prod.splits)

lemma handle_file_unknown:
  "unknown_formats (fst (handle_file root st f)) =
     (case get_target_folder root (extension_of f) of
        Some t \<Rightarrow> unknown_formats st
      | None \<Rightarrow> insert (extension_of f) (unknown_formats st))"
  by (simp add: handle_file_def Let_def execute_in_thread_def
      split: option.splits sum.splits prod.splits)

lemma handle_file_folders: "folders (fst (handle_file root st f)) = folders st"
  by (simp add: handle_file_def Let_def execute_in_thread_def
      split: option.splits sum.splits prod.splits)

lemma handle_file_pool:
  "\<exists>ts. thread_pool (fst (handle_file root st f)) = thread_pool st @ ts
        \<and> (\<forall>t\<in>set ts. \<exists>new_path. t = MoveFile f new_path)"
  by (simp add: handle_file_def Let_def execute_in_thread_def
      split: option.splits sum.splits prod.splits)

lemma handle_file_formats_inv:
  assumes "formats_inv root st"
  shows "formats_inv root (fst (handle_file root st f))"
  using assms unfolding formats_inv_def handle_file_known handle_file_unknown
  by (auto split: option.splits)

lemma handle_file_outside:
  assumes "pool_outside root st" and "\<not> inside root f"
  shows "pool_outside root (fst (handle_file root st f))"
proof -
  from handle_file_pool [of root st f] obtain ts where
    ts: "thread_pool (fst (handle_file root st f)) = thread_pool st @ ts"
      "\<forall>t\<in>set ts. \<exists>new_path. t = MoveFile f new_path"
    by blast
  from ts(2) assms(2) have "\<forall>t\<in>set ts. task_outside root t" by auto
  with assms(1) ts(1) show ?thesis
    by (auto simp: pool_outside_def handle_file_folders)
qed

lemma scan_entries_Cons_cases:
  obtains
    (skipped) "scan_entries root st (c # cs) = scan_entries root st cs"
  | (failed) e where "c \<notin> set (target_pathes root)"
      "scan_entries root st (c # cs) = (fst (handle_file root st c), Some e)"
  | (handled) "c \<notin> set (target_pathes root)"
      "scan_entries root st (c # cs) = scan_entries root (fst (handle_file root st c)) cs"
  | (folder) "c \<notin> set (target_pathes root)"
      "scan_entries root st (c # cs) =
         scan_entries root
           (execute_in_thread (st\<lparr>folders := folders st @ [c]\<rparr>) (ScanDir c)) cs"
proof (cases "c \<in> set (target_pathes root)")
  case True
  then have "scan_entries root st (c # cs) = scan_entries root st cs" by simp
  then show ?thesis by (rule skipped)
next
  case False
  show ?thesis
  proof (cases "is_file (disk st) c")
    case True
    obtain h r where hr: "handle_file root st c = (h, r)" by (cases "handle_file root st c")
    show ?thesis
    proof (cases r)
      case None
      with hr True False
      have "scan_entries root st (c # cs) = scan_entries root (fst (handle_file root st c)) cs"
        by simp
      with False show ?thesis by (rule handled)
    next
      case (Some e)
      with hr True False
      have "scan_entries root st (c # cs) = (fst (handle_file root st c), Some e)"
        by simp
      with False show ?thesis by (rule failed)
    qed
  next
    case nofile: False
    show ?thesis
    proof (cases "is_dir (disk st) c")
      case True
      with nofile False have "scan_entries root st (c # cs) =
         scan_entries root
           (execute_in_thread (st\<lparr>folders := folders st @ [c]\<rparr>) (ScanDir c)) cs"
        by simp
      with False show ?thesis by (rule folder)
    next
      case nodir: False
      with nofile False have "scan_entries root st (c # cs) = scan_entries root st cs" by simp
      then show ?thesis by (rule skipped)
    qed
  qed
qed

lemma scan_entries_formats:
  "formats_inv root st \<Longrightarrow>
     formats_inv root (fst (scan_entries root st cs))
     \<and> known_formats st \<subseteq> known_formats (fst (scan_entries root st cs))
     \<and> unknown_formats st \<subseteq> unknown_formats (fst (scan_entries root st cs))"
proof (induction cs arbitrary: st)
  case Nil
  then show ?case by simp
next
  case (Cons c cs)
  let ?h = "fst (handle_file root st c)"
  let ?d = "execute_in_thread (st\<lparr>folders := folders st @ [c]\<rparr>) (ScanDir c)"
  have h: "formats_inv root ?h" "known_formats st \<subseteq> known_formats ?h"
    "unknown_formats st \<subseteq> unknown_formats ?h"
    using Cons.prems
    by (auto simp: handle_file_formats_inv handle_file_known handle_file_unknown
        split: option.splits)
  have d: "formats_inv root ?d" "known_formats ?d = known_formats st"
    "unknown_formats ?d = unknown_formats st"
    using Cons.prems by (simp_all add: formats_inv_def execute_in_thread_def)
  show ?case
  proof (cases rule: scan_entries_Cons_cases [of root st c cs])
    case skipped
    with Cons.IH [OF Cons.prems] show ?thesis by simp
  next
    case (failed e)
    with h show ?thesis by simp
  next
    case handled
    with Cons.IH [OF h(1)] h(2,3) show ?thesis by auto
  next
    case folder
    with Cons.IH [OF d(1)] d(2,3) show ?thesis by auto
  qed
qed

lemma child_inside:
  assumes "c \<noteq> []" and "inside root c" and "c \<notin> set (target_pathes root)"
  shows "inside root (butlast c)"
proof -
  from assms(2) obtain t where t: "t \<in> set (target_pathes root)" "take (length t) c = t"
    by (auto simp: inside_def list_ex_iff below_def)
  from t(2) have "length t = min (length c) (length t)"
    using length_take [of "length t" c] by simp
  then have le: "length t \<le> length c" by simp
  have "length t \<noteq> length c"
  proof
    assume "length t = length c"
    with t(2) have "t = c" by simp
    with t(1) assms(3) show False by simp
  qed
  with le have lt: "length t < length c" by simp
  from assms(1) obtain d x where c: "c = d @ [x]" by (cases c rule: rev_cases) auto
  with lt have "length t \<le> length d" by simp
  with t(2) c have "take (length t) d = t" by simp
  with t(1) c show ?thesis by (auto simp: inside_def list_ex_iff below_def)
qed

lemma scan_entries_outside:
  "\<forall>c\<in>set cs. c \<notin> set (target_pathes root) \<longrightarrow> \<not> inside root c \<Longrightarrow>
   pool_outside root st \<Longrightarrow> pool_outside root (fst (scan_entries root st cs))"
proof (induction cs arbitrary: st)
  case Nil
  then show ?case by simp
next
  case (Cons c cs)
  from Cons.prems(1) have rest: "\<forall>c\<in>set cs. c \<notin> set (target_pathes root) \<longrightarrow> \<not> inside root c"
    by simp
  let ?h = "fst (handle_file root st c)"
  let ?d = "execute_in_thread (st\<lparr>folders := folders st @ [c]\<rparr>) (ScanDir c)"
  have h: "pool_outside root ?h" if "c \<notin> set (target_pathes root)"
  proof -
    from that Cons.prems(1) have "\<not> inside root c" by simp
    with Cons.prems(2) show ?thesis by (rule handle_file_outside)
  qed
  have d: "pool_outside root ?d" if "c \<notin> set (target_pathes root)"
  proof -
    from that Cons.prems(1) have "\<not> inside root c" by simp
    with Cons.prems(2) show ?thesis by (auto simp: pool_outside_def execute_in_thread_def)
  qed
  show ?case
  proof (cases rule: scan_entries_Cons_cases [of root st c cs])
    case skipped
    with Cons.IH [OF rest Cons.prems(2)] show ?thesis by simp
  next
    case (failed e)
    with h show ?thesis by simp
  next
    case handled
    with Cons.IH [OF rest h] show ?thesis by simp
  next
    case folder
    with Cons.IH [OF rest d] show ?thesis by simp
  qed
qed

lemma entries_children: "c \<in> set (entries fs d) \<Longrightarrow> c \<noteq> [] \<and> butlast c = d"
  by (auto simp: entries_def)

lemma scan_dir_formats:
  "formats_inv root st \<Longrightarrow>
     formats_inv root (fst (scan_dir root st d))
     \<and> known_formats st \<subseteq> known_formats (fst (scan_dir root st d))
     \<and> unknown_formats st \<subseteq> unknown_formats (fst (scan_dir root st d))"
  using scan_entries_formats [of root st]
  by (auto simp: scan_dir_def split: sum.splits)

lemma scan_dir_outside:
  assumes "pool_outside root st" and "\<not> inside root d"
  shows "pool_outside root (fst (scan_dir root st d))"
proof (cases "iterdir (disk st) d")
  case (Inl e)
  with assms(1) show ?thesis by (simp add: scan_dir_def)
next
  case (Inr cs)
  then have cs: "cs = entries (disk st) d" by (auto simp: iterdir_def split: if_splits)
  have "\<forall>c\<in>set cs. c \<notin> set (target_pathes root) \<longrightarrow> \<not> inside root c"
  proof (intro ballI impI)
    fix c assume c: "c \<in> set cs" "c \<notin> set (target_pathes root)"
    from c(1) cs have "c \<noteq> []" "butlast c = d" by (auto dest: entries_children)
    with child_inside [of c root] c(2) assms(2) show "\<not> inside root c" by auto
  qed
  from scan_entries_outside [OF this assms(1)] Inr show ?thesis by (simp add: scan_dir_def)
qed

lemma run_task_formats:
  assumes "run_task pl root unp st t = Some (st', r)" and "formats_inv root st"
  shows "formats_inv root st' \<and> known_formats st \<subseteq> known_formats st'
         \<and> unknown_formats st \<subseteq> unknown_formats st'"
proof (cases t)
  case (ScanDir d)
  with assms(1) have "st' = fst (scan_dir root st d)" by (auto simp: run_task_def)
  with scan_dir_formats [OF assms(2), of d] show ?thesis by simp
next
  case (MoveFile a b)
  with assms show ?thesis
    by (auto simp: run_task_def formats_inv_def split: option.splits sum.splits)
next
  case (HandleArchive p)
  with assms show ?thesis
    by (auto simp: run_task_def handle_archive_def formats_inv_def Let_def
        split: option.splits sum.splits prod.splits)
qed

lemma run_task_outside:
  assumes "run_task pl root unp st t = Some (st', r)" and "pool_outside root st"
    and "task_outside root t"
  shows "pool_outside root st'"
proof (cases t)
  case (ScanDir d)
  with assms(1) have "st' = fst (scan_dir root st d)" by (auto simp: run_task_def)
  with scan_dir_outside [OF assms(2), of d] assms(3) ScanDir show ?thesis by simp
next
  case (MoveFile a b)
  with assms show ?thesis
    by (auto simp: run_task_def pool_outside_def split: option.splits sum.splits)
next
  case (HandleArchive p)
  with assms show ?thesis
    by (auto simp: run_task_def handle_archive_def pool_outside_def Let_def
        split: option.splits sum.splits prod.splits)
qed

lemma exec_formats:
  assumes "exec pl root unp st st'" and "formats_inv root st"
  shows "formats_inv root st' \<and> known_formats st \<subseteq> known_formats st'
         \<and> unknown_formats st \<subseteq> unknown_formats st'"
  using assms
proof (induction rule: exec.induct)
  case (exec_refl st)
  then show ?case by simp
next
  case (exec_step st st1 ts t ts' st2 r)
  let ?s = "st1\<lparr>thread_pool := ts @ ts'\<rparr>"
  from exec_step.IH [OF exec_step.prems] have "formats_inv root ?s"
    "known_formats st \<subseteq> known_formats ?s" "unknown_formats st \<subseteq> unknown_formats ?s"
    by (simp_all add: formats_inv_def)
  with run_task_formats [OF exec_step.hyps(3)] show ?case by blast
qed

lemma exec_outside:
  assumes "exec pl root unp st st'" and "pool_outside root st"
  shows "pool_outside root st'"
  using assms
proof (induction rule: exec.induct)
  case (exec_refl st)
  then show ?case by simp
next
  case (exec_step st st1 ts t ts' st2 r)
  let ?s = "st1\<lparr>thread_pool := ts @ ts'\<rparr>"
  from exec_step.IH [OF exec_step.prems] exec_step.hyps(2)
  have "pool_outside root ?s" "task_outside root t"
    by (simp_all add: pool_outside_def)
  with run_task_outside [OF exec_step.hyps(3)] show ?case by blast
qed

lemma formats_inv_disjoint:
  "formats_inv root st \<Longrightarrow> known_formats st \<inter> unknown_formats st = {}"
  by (auto simp: formats_inv_def)

lemma scan_entries_skip:
  "scan_entries root st cs =
     scan_entries root st (filter (\<lambda>c. c \<notin> set (target_pathes root)) cs)"
proof (induction cs arbitrary: st)
  case Nil
  then show ?case by simp
next
  case (Cons c cs)
  show ?case
  proof (cases "c \<in> set (target_pathes root)")
    case True
    with Cons.IH [of st] show ?thesis by simp
  next
    case False
    with Cons.IH show ?thesis by (simp split: prod.splits option.splits)
  qed
qed

lemma target_not_below_root: "\<not> inside root root"
  by (auto simp: inside_def list_ex_iff below_def target_pathes_def gen_formats_path_set_def
      FORMATS_DICT_def joinpath_def u_def)

text \<open>
  C5: \<open>handle_file\<close> adds the extension of the file to exactly one of the two sets, to
  \<open>known_formats\<close> when \<open>get_target_folder\<close> finds a folder for it and to
  \<open>unknown_formats\<close> otherwise, whether or not the later \<open>mkdir\<close> fails. Starting
  from sets that agree with the classifier (the empty sets do), in every state reached
  afterwards by running pending tasks in any order the extension is in exactly one of
  the two sets, and the sets are disjoint.
\<close>

theorem handle_file_records_extension_once:
  assumes "formats_inv root st"
  shows "(if get_target_folder root (extension_of file_path) \<noteq> None
          then known_formats (fst (handle_file root st file_path))
                 = insert (extension_of file_path) (known_formats st)
               \<and> unknown_formats (fst (handle_file root st file_path)) = unknown_formats st
          else unknown_formats (fst (handle_file root st file_path))
                 = insert (extension_of file_path) (unknown_formats st)
               \<and> known_formats (fst (handle_file root st file_path)) = known_formats st)
         \<and> (\<forall>st'. exec pl root unp (fst (handle_file root st file_path)) st' \<longrightarrow>
               (extension_of file_path \<in> known_formats st'
                  \<longleftrightarrow> extension_of file_path \<notin> unknown_formats st')
               \<and> known_formats st' \<inter> unknown_formats st' = {})"
proof -
  let ?h = "fst (handle_file root st file_path)"
  let ?e = "extension_of file_path"
  have sets: "if get_target_folder root ?e \<noteq> None
      then known_formats ?h = insert ?e (known_formats st) \<and> unknown_formats ?h = unknown_formats st
      else unknown_formats ?h = insert ?e (unknown_formats st) \<and> known_formats ?h = known_formats st"
    by (auto simp: handle_file_known handle_file_unknown)
  then have mem: "?e \<in> known_formats ?h \<union> unknown_formats ?h"
    by (auto split: if_splits)
  have inv: "formats_inv root ?h"
    using assms by (rule handle_file_formats_inv)
  have "(?e \<in> known_formats st' \<longleftrightarrow> ?e \<notin> unknown_formats st')
      \<and> known_formats st' \<inter> unknown_formats st' = {}"
    if "exec pl root unp ?h st'" for st'
  proof -
    from exec_formats [OF that inv] have st': "formats_inv root st'"
      "known_formats ?h \<subseteq> known_formats st'" "unknown_formats ?h \<subseteq> unknown_formats st'"
      by simp_all
    from st'(2,3) mem have "?e \<in> known_formats st' \<union> unknown_formats st'" by blast
    with formats_inv_disjoint [OF st'(1)] show ?thesis by blast
  qed
  with sets show ?thesis by blast
qed

lemma get_target_folder_JPG:
  "get_target_folder [u ''tresh''] (u ''JPG'') = Some [u ''tresh'', u ''images'']"
  by (simp add: get_target_folder_def target_pathes_def gen_formats_path_set_def
      FORMATS_DICT_def lower_def lower_char_def upper_ascii path_simps)

theorem handle_file_records_extension_once_witness:
  "formats_inv [u ''tresh'']
     \<lparr>disk = [([u ''tresh''], Dir), ([u ''tresh'', u ''pic.JPG''], File 1)],
      known_formats = {}, unknown_formats = {}, thread_pool = [], folders = []\<rparr>
   \<and> known_formats (fst (handle_file [u ''tresh'']
        \<lparr>disk = [([u ''tresh''], Dir), ([u ''tresh'', u ''pic.JPG''], File 1)],
         known_formats = {}, unknown_formats = {}, thread_pool = [], folders = []\<rparr>
        [u ''tresh'', u ''pic.JPG''])) = {u ''JPG''}
   \<and> unknown_formats (fst (handle_file [u ''tresh'']
        \<lparr>disk = [([u ''tresh''], Dir), ([u ''tresh'', u ''pic.JPG''], File 1)],
         known_formats = {}, unknown_formats = {}, thread_pool = [], folders = []\<rparr>
        [u ''tresh'', u ''pic.JPG''])) = {}"
proof -
  let ?st = "\<lparr>disk = [([u ''tresh''], Dir), ([u ''tresh'', u ''pic.JPG''], File 1)],
      known_formats = {}, unknown_formats = {}, thread_pool = [], folders = []\<rparr>"
  have inv: "formats_inv [u ''tresh''] ?st" by (simp add: formats_inv_def)
  have e: "extension_of [u ''tresh'', u ''pic.JPG''] = u ''JPG''"
    by (simp add: extension_of_def path_simps)
  from handle_file_records_extension_once
    [OF inv, of "[u ''tresh'', u ''pic.JPG'']" Posix "unpack_archive (\<lambda>c. None)"]
  show ?thesis using inv by (simp add: e get_target_folder_JPG)
qed

text \<open>
  C6: \<open>scan_dir\<close> skips every entry that is one of the five destination paths: the scan
  of a list of entries is the scan of the list without them. So, when no pending scan
  or move task and no recorded folder is inside a destination folder (as at the start)
  and \<open>scan_dir\<close> runs on a directory that is not inside one (as the root), the same
  holds in every state reached by running pending tasks in any order: no destination
  folder is ever scanned or recorded, no file inside one is ever moved by the scan, and
  every entry that a pending scan does not skip lies outside the destination folders.
\<close>

theorem scan_never_enters_destination_folders:
  assumes "pool_outside root st" and "\<not> inside root cur_dir"
    and "exec pl root unp (fst (scan_dir root st cur_dir)) st'"
  shows "scan_entries root st cur_paths
           = scan_entries root st (filter (\<lambda>p. p \<notin> set (target_pathes root)) cur_paths)
         \<and> pool_outside root (fst (scan_dir root st cur_dir)) \<and> pool_outside root st'
         \<and> \<not> inside root root
         \<and> (\<forall>d c fs'. ScanDir d \<in> set (thread_pool st') \<longrightarrow> c \<in> set (entries fs' d) \<longrightarrow>
               c \<notin> set (target_pathes root) \<longrightarrow> \<not> inside root c)"
proof -
  have "pool_outside root (fst (scan_dir root st cur_dir))"
    using assms(1,2) by (rule scan_dir_outside)
  moreover from exec_outside [OF assms(3) this] have out: "pool_outside root st'" .
  moreover have "\<not> inside root c"
    if "ScanDir d \<in> set (thread_pool st')" "c \<in> set (entries fs' d)"
      "c \<notin> set (target_pathes root)" for d c fs'
  proof
    assume "inside root c"
    moreover from that(2) have "c \<noteq> []" "butlast c = d" by (auto dest: entries_children)
    ultimately have "inside root d" using child_inside [of c root] that(3) by auto
    moreover from out that(1) have "task_outside root (ScanDir d)"
      unfolding pool_outside_def by blast
    ultimately show False by simp
  qed
  ultimately show ?thesis
    using scan_entries_skip [of root st cur_paths] target_not_below_root [of root] by blast
qed

theorem scan_never_enters_destination_folders_witness:
  "pool_outside [u ''tresh'']
     \<lparr>disk = [([u ''tresh''], Dir), ([u ''tresh'', u ''images''], Dir),
              ([u ''tresh'', u ''images'', u ''old.jpg''], File 1),
              ([u ''tresh'', u ''sub''], Dir), ([u ''tresh'', u ''sub'', u ''pic.JPG''], File 2)],
      known_formats = {}, unknown_formats = {}, thread_pool = [], folders = []\<rparr>
   \<and> \<not> inside [u ''tresh''] [u ''tresh'']
   \<and> thread_pool (fst (scan_dir [u ''tresh'']
       \<lparr>disk = [([u ''tresh''], Dir), ([u ''tresh'', u ''images''], Dir),
                ([u ''tresh'', u ''images'', u ''old.jpg''], File 1),
                ([u ''tresh'', u ''sub''], Dir), ([u ''tresh'', u ''sub'', u ''pic.JPG''], File 2)],
        known_formats = {}, unknown_formats = {}, thread_pool = [], folders = []\<rparr>
       [u ''tresh''])) = [ScanDir [u ''tresh'', u ''sub'']]
   \<and> pool_outside [u ''tresh''] (fst (scan_dir [u ''tresh'']
       \<lparr>disk = [([u ''tresh''], Dir), ([u ''tresh'', u ''images''], Dir),
                ([u ''tresh'', u ''images'', u ''old.jpg''], File 1),
                ([u ''tresh'', u ''sub''], Dir), ([u ''tresh'', u ''sub'', u ''pic.JPG''], File 2)],
        known_formats = {}, unknown_formats = {}, thread_pool = [], folders = []\<rparr>
       [u ''tresh'']))"
proof -
  let ?st = "\<lparr>disk = [([u ''tresh''], Dir), ([u ''tresh'', u ''images''], Dir),
              ([u ''tresh'', u ''images'', u ''old.jpg''], File 1),
              ([u ''tresh'', u ''sub''], Dir), ([u ''tresh'', u ''sub'', u ''pic.JPG''], File 2)],
      known_formats = {}, unknown_formats = {}, thread_pool = [], folders = []\<rparr>"
  let ?r = "[u ''tresh'']"
  have p: "pool_outside ?r ?st" by (simp add: pool_outside_def)
  have r: "\<not> inside ?r ?r" by (rule target_not_below_root)
  have x: "exec Posix ?r (unpack_archive (\<lambda>c. None)) (fst (scan_dir ?r ?st ?r))
      (fst (scan_dir ?r ?st ?r))"
    by (rule exec_refl)
  have t: "thread_pool (fst (scan_dir ?r ?st ?r)) = [ScanDir [u ''tresh'', u ''sub'']]"
    by (simp add: scan_dir_def target_pathes_def gen_formats_path_set_def FORMATS_DICT_def
        execute_in_thread_def path_simps fs_simps)
  from scan_never_enters_destination_folders [OF p r x, of "[]"] p r t
  show ?thesis by simp
qed

section \<open>Renaming folders\<close>

text \<open>
  C7 (the code breaks it): the non-empty folder \<open>tresh/x.y\<close> has the normalized name
  \<open>x_y\<close>, different from its name, yet it is renamed to \<open>x\<close>: \<open>handle_folders\<close>
  normalizes the stem and, unlike \<open>handle_file\<close>, does not put the suffix back.
\<close>

theorem handle_folder_drops_suffix:
  "normalize (name [u ''tresh'', u ''x.y'']) = u ''x_y''
   \<and> handle_folder Posix
       [([u ''tresh''], Dir), ([u ''tresh'', u ''x.y''], Dir),
        ([u ''tresh'', u ''x.y'', u ''f.py''], File 5)] [u ''tresh'', u ''x.y'']
     = Some (Inr [([u ''tresh''], Dir), ([u ''tresh'', u ''x''], Dir),
                  ([u ''tresh'', u ''x'', u ''f.py''], File 5)])
   \<and> handle_folder Windows
       [([u ''tresh''], Dir), ([u ''tresh'', u ''x.y''], Dir),
        ([u ''tresh'', u ''x.y'', u ''f.py''], File 5)] [u ''tresh'', u ''x.y'']
     = Some (Inr [([u ''tresh''], Dir), ([u ''tresh'', u ''x''], Dir),
                  ([u ''tresh'', u ''x'', u ''f.py''], File 5)])"
proof -
  let ?fs = "[([u ''tresh''], Dir), ([u ''tresh'', u ''x.y''], Dir),
        ([u ''tresh'', u ''x.y'', u ''f.py''], File 5)]"
  let ?p = "[u ''tresh'', u ''x.y'']"
  have n: "normalize (name ?p) = u ''x_y''"
    by (simp add: normalize_Cons normalize_char_ascii isalnum_ascii path_simps)
  have s: "normalize (stem ?p) = u ''x''"
    by (simp add: normalize_Cons normalize_char_ascii isalnum_ascii path_simps)
  have e: "path_exists ?fs ?p = Inr True"
    and i: "iterdir ?fs ?p = Inr [[u ''tresh'', u ''x.y'', u ''f.py'']]"
    by (simp_all add: path_simps fs_simps)
  have j: "joinpath (parent ?p) (u ''x'') = [u ''tresh'', u ''x'']" and "u ''x'' \<noteq> name ?p"
    by (simp_all add: path_simps)
  then have h: "handle_folder pl ?fs ?p = move_file pl ?fs ?p [u ''tresh'', u ''x'']" for pl
    using e i s by (simp add: handle_folder_def)
  have r: "rename pl ?fs ?p [u ''tresh'', u ''x'']
      = Inr [([u ''tresh''], Dir), ([u ''tresh'', u ''x''], Dir),
             ([u ''tresh'', u ''x'', u ''f.py''], File 5)]" for pl
    by (simp add: rename_def path_simps fs_simps)
  have "move_file pl ?fs ?p [u ''tresh'', u ''x'']
      = Some (Inr [([u ''tresh''], Dir), ([u ''tresh'', u ''x''], Dir),
             ([u ''tresh'', u ''x'', u ''f.py''], File 5)])" for pl
    by (subst move_file.simps) (simp add: r)
  with h n show ?thesis by simp
qed

section \<open>Failures of archive tasks\<close>

text \<open>
  C8 (the code breaks it): the file \<open>notes.gz\<close> is classified as an archive and moved
  to \<open>tresh/archives\<close>; \<open>postprocessing\<close> submits \<open>handle_archive\<close> for it, whose
  \<open>unpack_archive\<close> raises \<open>ReadError\<close> (no unpack format is registered for the
  name). \<open>wait_for_result\<close> is not called after \<open>postprocessing\<close>, so nobody reads
  the future: \<open>main\<close> returns 0, the exit status is 0, and the archive is still there.
\<close>

theorem main_ignores_failed_unpack:
  "main Posix (unpack_archive (\<lambda>c. None)) [[u ''clean.py''], [u ''tresh'']]
     [([u ''tresh''], Dir), ([u ''tresh'', u ''notes.gz''], File 3)]
   = Some (Returned 0,
       [([u ''tresh'', u ''archives''], Dir), ([u ''tresh''], Dir),
        ([u ''tresh'', u ''archives'', u ''notes.gz''], File 3)])
   \<and> exit_status (Returned 0) = 0
   \<and> thread_pool (fst (postprocessing [u ''tresh'']
        \<lparr>disk = [([u ''tresh'', u ''archives''], Dir), ([u ''tresh''], Dir),
                 ([u ''tresh'', u ''archives'', u ''notes.gz''], File 3)],
         known_formats = {u ''gz''}, unknown_formats = {}, thread_pool = [], folders = []\<rparr>))
     = [HandleArchive [u ''tresh'', u ''archives'', u ''notes.gz'']]
   \<and> snd (handle_archive (unpack_archive (\<lambda>c. None))
        \<lparr>disk = [([u ''tresh'', u ''archives''], Dir), ([u ''tresh''], Dir),
                 ([u ''tresh'', u ''archives'', u ''notes.gz''], File 3)],
         known_formats = {u ''gz''}, unknown_formats = {},
         thread_pool = [], folders = []\<rparr>
        [u ''tresh'', u ''archives'', u ''notes.gz'']) = Some ReadError"
  by (simp add: run_simps unpack_archive_def unpack_extensions_def exit_status_def)

section \<open>Postprocessing\<close>












end
